theory Spec2Isabelle
  imports Complex_Main "HOL-Library.Log_Nat"
begin

section \<open>Decimal values of the bignumber.js library\<close>

text \<open>
  The calculations are written against \<^verbatim>\<open>bignumber.js\<close> with its default
  configuration (the sources never call \<^verbatim>\<open>BigNumber.config\<close>):
  \<^verbatim>\<open>DECIMAL_PLACES = 20\<close>, \<^verbatim>\<open>ROUNDING_MODE = ROUND_HALF_UP\<close>,
  \<^verbatim>\<open>MODULO_MODE = ROUND_DOWN\<close>.  A value is a finite decimal, a negative zero,
  an infinity or \<^verbatim>\<open>NaN\<close>; \<^verbatim>\<open>Fin 0\<close> is the positive zero.  A finite decimal is
  kept as the rational number it denotes.  \<^verbatim>\<open>new BigNumber(x)\<close> never throws in this
  configuration: an argument that is not a number becomes \<^verbatim>\<open>NaN\<close>, so every
  \<^verbatim>\<open>numericInput\<close> of the source is taken here after that coercion, as a
  \<open>BigNumber\<close>.
\<close>

datatype BigNumber = Fin rat | NegZero | PInf | NInf | NaN

type_synonym numericInput = BigNumber

text \<open>The sign field \<^verbatim>\<open>s\<close> of a value is \<^verbatim>\<open>-1\<close>.\<close>

fun isNegative :: "BigNumber \<Rightarrow> bool" where
  "isNegative (Fin q) = (q < 0)"
| "isNegative NegZero = True"
| "isNegative PInf = False"
| "isNegative NInf = True"
| "isNegative NaN = False"

fun isNaN :: "BigNumber \<Rightarrow> bool" where
  "isNaN NaN = True"
| "isNaN _ = False"

fun isInfinite :: "BigNumber \<Rightarrow> bool" where
  "isInfinite PInf = True"
| "isInfinite NInf = True"
| "isInfinite _ = False"

fun isZero :: "BigNumber \<Rightarrow> bool" where
  "isZero (Fin q) = (q = 0)"
| "isZero NegZero = True"
| "isZero _ = False"

text \<open>The rational denoted by a finite value (both zeros denote 0).\<close>

fun valueOf :: "BigNumber \<Rightarrow> rat" where
  "valueOf (Fin q) = q"
| "valueOf _ = 0"

definition zero_of_sign :: "bool \<Rightarrow> BigNumber" where
  "zero_of_sign neg = (if neg then NegZero else Fin 0)"

definition infinity_of_sign :: "bool \<Rightarrow> BigNumber" where
  "infinity_of_sign neg = (if neg then NInf else PInf)"

definition finite_of_sign :: "bool \<Rightarrow> rat \<Rightarrow> BigNumber" where
  "finite_of_sign neg q = (if q = 0 then zero_of_sign neg else Fin q)"

definition negated :: "BigNumber \<Rightarrow> BigNumber" where
  "negated x =
     (case x of
        Fin q \<Rightarrow> (if q = 0 then NegZero else Fin (- q))
      | NegZero \<Rightarrow> Fin 0
      | PInf \<Rightarrow> NInf
      | NInf \<Rightarrow> PInf
      | NaN \<Rightarrow> NaN)"

text \<open>
  \<^verbatim>\<open>compare(x, y)\<close>: \<^verbatim>\<open>null\<close> when either side is \<^verbatim>\<open>NaN\<close>, else -1, 0 or 1;
  the two zeros compare equal.
\<close>

fun compare :: "BigNumber \<Rightarrow> BigNumber \<Rightarrow> int option" where
  "compare NaN _ = None"
| "compare _ NaN = None"
| "compare PInf PInf = Some 0"
| "compare PInf _ = Some 1"
| "compare _ PInf = Some (- 1)"
| "compare NInf NInf = Some 0"
| "compare NInf _ = Some (- 1)"
| "compare _ NInf = Some 1"
| "compare x y =
     Some (if valueOf x < valueOf y then - 1 else if valueOf x = valueOf y then 0 else 1)"

definition isGreaterThan :: "BigNumber \<Rightarrow> BigNumber \<Rightarrow> bool" where
  "isGreaterThan x y = (compare x y = Some 1)"

definition isGreaterThanOrEqualTo :: "BigNumber \<Rightarrow> BigNumber \<Rightarrow> bool" where
  "isGreaterThanOrEqualTo x y = (compare x y = Some 1 \<or> compare x y = Some 0)"

definition isLessThan :: "BigNumber \<Rightarrow> BigNumber \<Rightarrow> bool" where
  "isLessThan x y = (compare x y = Some (- 1))"

definition isLessThanOrEqualTo :: "BigNumber \<Rightarrow> BigNumber \<Rightarrow> bool" where
  "isLessThanOrEqualTo x y = (compare x y = Some (- 1) \<or> compare x y = Some 0)"

text \<open>
  \<^verbatim>\<open>times\<close> is exact.  \<^verbatim>\<open>NaN\<close> when an operand is \<^verbatim>\<open>NaN\<close> or when a zero meets an
  infinity; the sign of a zero or infinite product is the product of the signs.
\<close>

definition times_bn :: "BigNumber \<Rightarrow> BigNumber \<Rightarrow> BigNumber" where
  "times_bn x y =
     (if isNaN x \<or> isNaN y then NaN
      else if (isZero x \<and> isInfinite y) \<or> (isInfinite x \<and> isZero y) then NaN
      else if isInfinite x \<or> isInfinite y
        then infinity_of_sign (isNegative x \<noteq> isNegative y)
      else finite_of_sign (isNegative x \<noteq> isNegative y) (valueOf x * valueOf y))"

text \<open>
  \<^verbatim>\<open>plus\<close> is exact.  Opposite infinities give \<^verbatim>\<open>NaN\<close>; a zero sum is negative
  only when both operands are negative zeros.
\<close>

definition plus_bn :: "BigNumber \<Rightarrow> BigNumber \<Rightarrow> BigNumber" where
  "plus_bn x y =
     (if isNaN x \<or> isNaN y then NaN
      else if isInfinite x \<and> isInfinite y
        then (if isNegative x = isNegative y then x else NaN)
      else if isInfinite x then x
      else if isInfinite y then y
      else finite_of_sign (x = NegZero \<and> y = NegZero) (valueOf x + valueOf y))"

text \<open>\<^verbatim>\<open>x.minus(y)\<close> flips the sign of \<^verbatim>\<open>y\<close> and adds.\<close>

definition minus_bn :: "BigNumber \<Rightarrow> BigNumber \<Rightarrow> BigNumber" where
  "minus_bn x y = plus_bn x (negated y)"

text \<open>
  Rounding to \<open>dp\<close> decimal places, to the nearest neighbour and away from zero when
  equidistant (\<^verbatim>\<open>ROUND_HALF_UP\<close>).
\<close>

definition round_half_up :: "nat \<Rightarrow> rat \<Rightarrow> rat" where
  "round_half_up dp q =
     (if q < 0 then - (of_int \<lfloor>(- q) * 10 ^ dp + 1 / 2\<rfloor> / 10 ^ dp)
      else of_int \<lfloor>q * 10 ^ dp + 1 / 2\<rfloor> / 10 ^ dp)"

definition DECIMAL_PLACES :: nat where
  "DECIMAL_PLACES = 20"

text \<open>
  \<^verbatim>\<open>dividedBy\<close> rounds the quotient to \<^verbatim>\<open>DECIMAL_PLACES\<close>.  It never throws:
  \<^verbatim>\<open>NaN\<close> for \<^verbatim>\<open>0/0\<close> and for two infinities, a signed infinity for a non-zero
  value over zero, a signed zero for a finite value over an infinity.
\<close>

definition dividedBy :: "BigNumber \<Rightarrow> BigNumber \<Rightarrow> BigNumber" where
  "dividedBy x y =
     (if isNaN x \<or> isNaN y then NaN
      else if isInfinite x
        then (if isInfinite y then NaN else infinity_of_sign (isNegative x \<noteq> isNegative y))
      else if isInfinite y then zero_of_sign (isNegative x \<noteq> isNegative y)
      else if isZero y
        then (if isZero x then NaN else infinity_of_sign (isNegative x \<noteq> isNegative y))
      else finite_of_sign (isNegative x \<noteq> isNegative y)
             (round_half_up DECIMAL_PLACES (valueOf x / valueOf y)))"

text \<open>
  \<^verbatim>\<open>mod\<close> with \<^verbatim>\<open>MODULO_MODE = ROUND_DOWN\<close>: the remainder of the division truncated
  towards zero; a zero remainder takes the sign of the dividend.
\<close>

definition truncated :: "rat \<Rightarrow> int" where
  "truncated q = (if q < 0 then - \<lfloor>- q\<rfloor> else \<lfloor>q\<rfloor>)"

definition mod_bn :: "BigNumber \<Rightarrow> BigNumber \<Rightarrow> BigNumber" where
  "mod_bn x y =
     (if isNaN x \<or> isInfinite x \<or> isNaN y \<or> isZero y then NaN
      else if isInfinite y \<or> isZero x then x
      else finite_of_sign (isNegative x)
             (valueOf x - of_int (truncated (valueOf x / valueOf y)) * valueOf y))"

text \<open>\<^verbatim>\<open>BigNumber.maximum(x, y)\<close>: \<^verbatim>\<open>NaN\<close> if either is, else the larger.\<close>

definition BigNumber_maximum :: "BigNumber \<Rightarrow> BigNumber \<Rightarrow> BigNumber" where
  "BigNumber_maximum x y =
     (if isNaN x \<or> isNaN y then NaN else if isLessThan x y then y else x)"

text \<open>\<^verbatim>\<open>new BigNumber(n)\<close> for an integer-valued JavaScript number \<open>n\<close>.\<close>

definition BigNumber_of_int :: "int \<Rightarrow> BigNumber" where
  "BigNumber_of_int n = Fin (of_int n)"

section \<open>The calculator class\<close>

record DexCalculations =
  isLbContract :: bool

text \<open>The constructor: an absent or false argument leaves the flag unset.\<close>

definition new_DexCalculations :: "bool option \<Rightarrow> DexCalculations" where
  "new_DexCalculations arg =
     (case arg of Some True \<Rightarrow> \<lparr>isLbContract = True\<rparr> | _ \<Rightarrow> \<lparr>isLbContract = False\<rparr>)"

subsection \<open>Shared primitives\<close>

definition gtZero :: "BigNumber \<Rightarrow> bool" where
  "gtZero x = isGreaterThan x (BigNumber_of_int 0)"

definition geqZero :: "BigNumber \<Rightarrow> bool" where
  "geqZero x = isGreaterThanOrEqualTo x (BigNumber_of_int 0)"

definition eqZero :: "BigNumber \<Rightarrow> bool" where
  "eqZero x = isZero x"

definition leqZero :: "BigNumber \<Rightarrow> bool" where
  "leqZero x = isLessThanOrEqualTo x (BigNumber_of_int 0)"

definition ceilingDiv :: "BigNumber \<Rightarrow> BigNumber \<Rightarrow> BigNumber" where
  "ceilingDiv x y =
     (let result = mod_bn x y
      in if isGreaterThanOrEqualTo result (BigNumber_of_int 0)
         then plus_bn (dividedBy x y) (BigNumber_of_int 1)
         else dividedBy x y)"

definition creditSubsidy :: "BigNumber \<Rightarrow> BigNumber" where
  "creditSubsidy xtzPool = plus_bn xtzPool (BigNumber_of_int 2500000)"

text \<open>
  JavaScript numbers.  The percentages and the slippage are \<^verbatim>\<open>number\<close>s; they are
  taken as rationals (0.1 is \<open>1/10\<close>) and \<^verbatim>\<open>Math.floor(p * 10)\<close> as the exact floor:
  the rounding error of double precision is left out, and so is a percentage that is
  \<^verbatim>\<open>NaN\<close>.  The products \<^verbatim>\<open>fee * burn\<close> and \<^verbatim>\<open>fee * 1000\<close> are integers far below
  \<open>2^53\<close> and exact.  \<^verbatim>\<open>p ? a : b\<close> takes \<open>b\<close> for an absent argument and for zero.
\<close>

definition multiplier :: "rat \<Rightarrow> int" where
  "multiplier percent = 1000 - \<lfloor>percent * 10\<rfloor>"

definition optional_multiplier :: "rat option \<Rightarrow> int" where
  "optional_multiplier percent =
     (case percent of
        None \<Rightarrow> 1000
      | Some p \<Rightarrow> (if p = 0 then 1000 else multiplier p))"

text \<open>
  \<^verbatim>\<open>Math.pow(10, d)\<close> for an integer \<open>d\<close>, as the \<open>BigNumber\<close> that
  \<^verbatim>\<open>times\<close> makes of it: double precision overflows to \<^verbatim>\<open>Infinity\<close> above
  \<open>10^308\<close> and underflows to zero below \<open>10^-323\<close>.  The decimals argument is taken
  as an integer.  The inverse quotes call it on validated decimals only, from 0 upwards.
\<close>

definition Math_pow10 :: "int \<Rightarrow> BigNumber" where
  "Math_pow10 d =
     (if 308 < d then PInf
      else if 0 \<le> d then Fin (10 ^ nat d)
      else if - 323 \<le> d then Fin (1 / 10 ^ nat (- d))
      else Fin 0)"

text \<open>
  For a negative exponent the double that \<^verbatim>\<open>Math.pow\<close> returns is left to the engine
  (the language calls it implementation-approximated), and with it the \<open>BigNumber\<close>
  that \<^verbatim>\<open>times\<close> makes of it.  The market rates and the rates for display therefore
  take the function \<open>d \<mapsto> new BigNumber(Math.pow(10, d))\<close> of the engine as their
  argument \<open>pow10\<close>.
\<close>

type_synonym Math_pow = "int \<Rightarrow> BigNumber"

text \<open>
  Double precision, for the slippage: a number literal is read as the nearest double and
  a product is rounded to the nearest double, to the even one of two that are equally near.
  A double is kept as the rational it is; \<open>to_double\<close> rounds a rational to 53 bits, with
  the fixed exponent of the subnormal range at the bottom.  The slippage passes its guard
  only from 0 to 1, so that its products stay far below the overflow of double precision.
\<close>

definition scale2 :: "rat \<Rightarrow> int \<Rightarrow> rat" where
  "scale2 x e = (if 0 \<le> e then x * 2 ^ nat e else x / 2 ^ nat (- e))"

definition floor_log2 :: "rat \<Rightarrow> int" where
  "floor_log2 x =
     (let k = bitlen (fst (quotient_of x)) - bitlen (snd (quotient_of x))
      in if scale2 1 k \<le> x then k else k - 1)"

definition round_half_even :: "rat \<Rightarrow> int" where
  "round_half_even y =
     (let f = \<lfloor>y\<rfloor>; r = y - of_int f
      in if r < 1 / 2 then f else if 1 / 2 < r then f + 1 else if even f then f else f + 1)"

definition to_double :: "rat \<Rightarrow> rat" where
  "to_double x =
     (if x = 0 then 0
      else
        (let e = max (floor_log2 \<bar>x\<bar> - 52) (- 1074);
             m = round_half_even (scale2 \<bar>x\<bar> (- e))
         in sgn x * scale2 (of_int m) e))"

text \<open>\<^verbatim>\<open>Math.floor(allowedSlippage * 1000 * 100)\<close> on the double \<open>allowedSlippage\<close>.\<close>

definition slippage_scaled :: "rat \<Rightarrow> int" where
  "slippage_scaled allowedSlippage = \<lfloor>to_double (to_double (allowedSlippage * 1000) * 100)\<rfloor>"

text \<open>
  An argument that the source reads as it is given, before any coercion.
  \<^verbatim>\<open>xtzToTokenMinimumTokenOutput\<close> reads \<^verbatim>\<open>tokenOut\<close> twice, with the operator of
  the language in \<^verbatim>\<open>tokenOut > 0\<close> and with \<^verbatim>\<open>new BigNumber(tokenOut)\<close>, and the two
  readings can differ: the text \<^verbatim>\<open>"0xaB"\<close> is the number 171 for the operator and
  \<^verbatim>\<open>NaN\<close> for \<open>BigNumber\<close>; a \<open>BigNumber\<close> below the least double is 0 for the
  operator.  The argument is given by both readings.
\<close>

record rawArgument =
  jsGreaterThanZero :: bool
  asBigNumber :: BigNumber

text \<open>
  \<^verbatim>\<open>tokenToXtzExchangeRateForDisplay\<close> calls \<^verbatim>\<open>decimals.toNumber()\<close> on the argument
  itself: a \<open>BigNumber\<close>, the declared type, answers; a number or a text has no such
  method and the call raises.
\<close>

datatype error = TypeError

datatype decimalsArgument = BigNumberDecimals int | PlainDecimals

subsection \<open>xtzToToken entrypoint functions\<close>

text \<open>
  In every function the \<^verbatim>\<open>try\<close> block only builds the \<open>BigNumber\<close>s, which
  cannot throw, so its \<^verbatim>\<open>catch\<close> branch is never taken; \<^verbatim>\<open>null\<close> is \<open>None\<close>.
  A local \<^verbatim>\<open>x_\<close> of the source is written \<open>x'\<close>.
\<close>

definition xtzToTokenTokenOutput ::
  "DexCalculations \<Rightarrow> numericInput \<Rightarrow> numericInput \<Rightarrow> numericInput \<Rightarrow>
   rat option \<Rightarrow> rat option \<Rightarrow> BigNumber option" where
  "xtzToTokenTokenOutput this xtzIn xtzPool tokenPool feePercent burnPercent =
     (let xtzPool = (if isLbContract this then creditSubsidy xtzPool else xtzPool);
          fee = optional_multiplier feePercent;
          burn = optional_multiplier burnPercent;
          feeMultiplier = fee * burn;
          xtzIn' = xtzIn;
          xtzPool' = xtzPool;
          tokenPool' = tokenPool
      in if gtZero xtzIn' \<and> gtZero xtzPool' \<and> gtZero tokenPool'
         then
           (let numerator =
                  times_bn (times_bn xtzIn' tokenPool') (BigNumber_of_int feeMultiplier);
                denominator =
                  plus_bn (times_bn xtzPool' (BigNumber_of_int 1000000))
                          (times_bn xtzIn' (BigNumber_of_int feeMultiplier))
            in Some (dividedBy numerator denominator))
         else None)"

definition xtzToTokenXtzInput ::
  "DexCalculations \<Rightarrow> numericInput \<Rightarrow> numericInput \<Rightarrow> numericInput \<Rightarrow> int \<Rightarrow>
   rat \<Rightarrow> rat \<Rightarrow> BigNumber option" where
  "xtzToTokenXtzInput this tokenOut xtzPool tokenPool decimals feePercent burnPercent =
     (let xtzPool = (if isLbContract this then creditSubsidy xtzPool else xtzPool);
          fee = multiplier feePercent;
          burn = multiplier burnPercent;
          feeMultiplier = fee * burn;
          tokenOut' = tokenOut;
          xtzPool' = xtzPool;
          tokenPool' = tokenPool;
          decimals' = BigNumber_of_int decimals
      in if gtZero tokenOut' \<and> gtZero xtzPool' \<and> gtZero tokenPool' \<and> geqZero decimals'
         then
           (let result =
                  dividedBy
                    (times_bn
                       (times_bn (times_bn xtzPool' tokenOut') (BigNumber_of_int 1000000))
                       (Math_pow10 decimals))
                    (times_bn (minus_bn tokenPool' tokenOut')
                       (times_bn (BigNumber_of_int feeMultiplier) (Math_pow10 decimals)))
            in if gtZero result then Some result else None)
         else None)"

definition xtzToTokenExchangeRate ::
  "DexCalculations \<Rightarrow> numericInput \<Rightarrow> numericInput \<Rightarrow> numericInput \<Rightarrow>
   rat \<Rightarrow> rat \<Rightarrow> BigNumber option" where
  "xtzToTokenExchangeRate this xtzIn xtzPool tokenPool feePercent burnPercent =
     (let xtzIn' = xtzIn; xtzPool' = xtzPool; tokenPool' = tokenPool
      in if gtZero xtzIn' \<and> gtZero xtzPool' \<and> gtZero tokenPool'
         then
           (case xtzToTokenTokenOutput this xtzIn' xtzPool' tokenPool'
                   (Some feePercent) (Some burnPercent) of
              None \<Rightarrow> None
            | Some tokenOutput \<Rightarrow> Some (dividedBy tokenOutput xtzIn'))
         else None)"

definition xtzToTokenExchangeRateForDisplay ::
  "DexCalculations \<Rightarrow> Math_pow \<Rightarrow> numericInput \<Rightarrow> numericInput \<Rightarrow> numericInput \<Rightarrow>
   int \<Rightarrow> rat \<Rightarrow> rat \<Rightarrow> BigNumber option" where
  "xtzToTokenExchangeRateForDisplay this pow10 xtzIn xtzPool tokenPool decimals
       feePercent burnPercent =
     (let xtzIn' = xtzIn; xtzPool' = xtzPool; tokenPool' = tokenPool
      in if gtZero xtzIn' \<and> gtZero xtzPool' \<and> gtZero tokenPool'
         then
           (case xtzToTokenTokenOutput this xtzIn' xtzPool' tokenPool'
                   (Some feePercent) (Some burnPercent) of
              None \<Rightarrow> None
            | Some tokenOutput \<Rightarrow>
                Some (dividedBy (times_bn tokenOutput (pow10 (- decimals)))
                                (times_bn xtzIn' (pow10 (- 6)))))
         else None)"

definition xtzToTokenMarketRate ::
  "DexCalculations \<Rightarrow> Math_pow \<Rightarrow> numericInput \<Rightarrow> numericInput \<Rightarrow> int \<Rightarrow>
   BigNumber option" where
  "xtzToTokenMarketRate this pow10 xtzPool tokenPool decimals =
     (let xtzPool' = xtzPool; tokenPool' = tokenPool; decimals' = BigNumber_of_int decimals
      in if gtZero xtzPool' \<and> gtZero tokenPool' \<and> geqZero decimals'
         then
           (let xtzPool'' = times_bn xtzPool' (pow10 (- 6));
                tokenPool'' = times_bn tokenPool' (pow10 (- decimals))
            in Some (dividedBy tokenPool'' xtzPool''))
         else None)"

definition xtzToTokenPriceImpact ::
  "DexCalculations \<Rightarrow> numericInput \<Rightarrow> numericInput \<Rightarrow> numericInput \<Rightarrow> rat \<Rightarrow>
   BigNumber option" where
  "xtzToTokenPriceImpact this xtzIn xtzPool tokenPool burnPercent =
     (let burn = multiplier burnPercent;
          xtzIn' = xtzIn;
          xtzPool' = (if isLbContract this then creditSubsidy xtzPool else xtzPool);
          tokenPool' = tokenPool
      in if gtZero xtzIn' \<and> gtZero xtzPool' \<and> gtZero tokenPool'
         then
           (let midPrice = times_bn tokenPool' xtzPool';
                xtzInNetBurn =
                  dividedBy (times_bn xtzIn' (BigNumber_of_int burn)) (BigNumber_of_int 1000);
                tokensBought =
                  dividedBy (times_bn xtzInNetBurn tokenPool') (plus_bn xtzInNetBurn xtzPool')
            in if leqZero tokensBought then Some (BigNumber_of_int 0)
               else
                 (let exactQuote = times_bn midPrice xtzIn'
                  in Some (dividedBy (minus_bn exactQuote tokensBought) exactQuote)))
         else None)"

text \<open>
  \<^verbatim>\<open>xtzToTokenMinimumTokenOutput\<close> tests \<^verbatim>\<open>tokenOut > 0\<close> with the operator of the
  language on the argument as given, and computes from \<^verbatim>\<open>new BigNumber(tokenOut)\<close>.
  The slippage is the literal the caller writes, read as a double.
\<close>

definition xtzToTokenMinimumTokenOutput ::
  "DexCalculations \<Rightarrow> rawArgument \<Rightarrow> rat \<Rightarrow> BigNumber option" where
  "xtzToTokenMinimumTokenOutput this tokenOut allowedSlippage =
     (let allowedSlippage = to_double allowedSlippage
      in if jsGreaterThanZero tokenOut \<and> 0 \<le> allowedSlippage \<and> allowedSlippage \<le> 1
      then
        (let tokenOut' = times_bn (asBigNumber tokenOut) (BigNumber_of_int 1000);
             allowedSlippage' = BigNumber_of_int (slippage_scaled allowedSlippage);
             result =
               dividedBy
                 (minus_bn tokenOut'
                    (dividedBy (times_bn tokenOut' allowedSlippage') (BigNumber_of_int 100000)))
                 (BigNumber_of_int 1000)
         in Some (BigNumber_maximum result (BigNumber_of_int 1)))
      else None)"

definition totalLiquidityProviderFee :: "DexCalculations \<Rightarrow> BigNumber \<Rightarrow> BigNumber option" where
  "totalLiquidityProviderFee this xtzIn =
     (let xtzIn' = xtzIn
      in if gtZero xtzIn'
         then Some (dividedBy (times_bn xtzIn' (BigNumber_of_int 1)) (BigNumber_of_int 1000))
         else None)"

definition liquidityProviderFee ::
  "DexCalculations \<Rightarrow> numericInput \<Rightarrow> numericInput \<Rightarrow> numericInput \<Rightarrow> BigNumber option" where
  "liquidityProviderFee this xtzIn totalLiquidity userLiquidity =
     (let xtzIn' = xtzIn; totalLiquidity' = totalLiquidity; userLiquidity' = userLiquidity
      in if gtZero xtzIn' \<and> gtZero totalLiquidity' \<and> gtZero userLiquidity'
         then
           (case totalLiquidityProviderFee this xtzIn' of
              None \<Rightarrow> None
            | Some fee \<Rightarrow> Some (dividedBy fee (dividedBy totalLiquidity' userLiquidity')))
         else None)"

subsection \<open>tokenToXtz entrypoint functions\<close>

text \<open>
  \<^verbatim>\<open>tokenToXtzXtzOutput\<close> validates the credited pool \<^verbatim>\<open>xtzPool_\<close> but builds the
  numerator and the denominator from the arguments \<^verbatim>\<open>tokenIn\<close>, \<^verbatim>\<open>xtzPool\<close> and
  \<^verbatim>\<open>tokenPool\<close> themselves.
\<close>

definition tokenToXtzXtzOutput ::
  "DexCalculations \<Rightarrow> numericInput \<Rightarrow> numericInput \<Rightarrow> numericInput \<Rightarrow>
   rat \<Rightarrow> rat \<Rightarrow> BigNumber option" where
  "tokenToXtzXtzOutput this tokenIn xtzPool tokenPool feePercent burnPercent =
     (let fee = multiplier feePercent;
          burn = multiplier burnPercent;
          feeAndBurnMultiplier = fee * burn;
          feeMultiplier = fee * 1000;
          tokenIn' = tokenIn;
          xtzPool' = (if isLbContract this then creditSubsidy xtzPool else xtzPool);
          tokenPool' = tokenPool
      in if gtZero tokenIn' \<and> gtZero xtzPool' \<and> gtZero tokenPool'
         then
           (let numerator =
                  times_bn (times_bn tokenIn xtzPool) (BigNumber_of_int feeAndBurnMultiplier);
                denominator =
                  plus_bn (times_bn tokenPool (BigNumber_of_int 1000000))
                          (times_bn tokenIn (BigNumber_of_int feeMultiplier))
            in Some (dividedBy numerator denominator))
         else None)"

definition tokenToXtzTokenInput ::
  "DexCalculations \<Rightarrow> BigNumber \<Rightarrow> numericInput \<Rightarrow> numericInput \<Rightarrow> int \<Rightarrow>
   rat \<Rightarrow> rat \<Rightarrow> BigNumber option" where
  "tokenToXtzTokenInput this xtzOut xtzPool tokenPool decimals feePercent burnPercent =
     (let fee = multiplier feePercent;
          burn = multiplier burnPercent;
          feeAndBurnMultiplier = fee * burn;
          feeMultiplier = fee * 1000;
          xtzOut' = xtzOut;
          xtzPool' = (if isLbContract this then creditSubsidy xtzPool else xtzPool);
          tokenPool' = tokenPool;
          decimals' = BigNumber_of_int decimals
      in if gtZero xtzOut' \<and> gtZero xtzPool' \<and> gtZero tokenPool' \<and> geqZero decimals'
         then
           (let result =
                  dividedBy
                    (times_bn
                       (times_bn (times_bn tokenPool' xtzOut') (BigNumber_of_int 1000000))
                       (Math_pow10 decimals))
                    (times_bn
                       (minus_bn (times_bn xtzPool' (BigNumber_of_int feeMultiplier))
                                 (times_bn xtzOut' (BigNumber_of_int feeAndBurnMultiplier)))
                       (Math_pow10 decimals))
            in if gtZero result then Some result else None)
         else None)"

definition tokenToXtzExchangeRate ::
  "DexCalculations \<Rightarrow> numericInput \<Rightarrow> numericInput \<Rightarrow> numericInput \<Rightarrow>
   rat \<Rightarrow> rat \<Rightarrow> BigNumber option" where
  "tokenToXtzExchangeRate this tokenIn xtzPool tokenPool feePercent burnPercent =
     (let tokenIn' = tokenIn; xtzPool' = xtzPool; tokenPool' = tokenPool
      in if gtZero tokenIn' \<and> gtZero xtzPool' \<and> gtZero tokenPool'
         then
           (case tokenToXtzXtzOutput this tokenIn' xtzPool' tokenPool' feePercent burnPercent of
              None \<Rightarrow> None
            | Some tokenOutput \<Rightarrow> Some (dividedBy tokenOutput tokenIn'))
         else None)"

definition tokenToXtzExchangeRateForDisplay ::
  "DexCalculations \<Rightarrow> Math_pow \<Rightarrow> numericInput \<Rightarrow> numericInput \<Rightarrow> numericInput \<Rightarrow>
   decimalsArgument \<Rightarrow> rat \<Rightarrow> rat \<Rightarrow> error + BigNumber option" where
  "tokenToXtzExchangeRateForDisplay this pow10 tokenIn xtzPool tokenPool decimals
       feePercent burnPercent =
     (let tokenIn' = tokenIn; xtzPool' = xtzPool; tokenPool' = tokenPool
      in if gtZero tokenIn' \<and> gtZero xtzPool' \<and> gtZero tokenPool'
         then
           (case tokenToXtzXtzOutput this tokenIn' xtzPool' tokenPool' feePercent burnPercent of
              None \<Rightarrow> Inr None
            | Some tokenOutput \<Rightarrow>
                (case decimals of
                   PlainDecimals \<Rightarrow> Inl TypeError
                 | BigNumberDecimals d \<Rightarrow>
                     Inr (Some (dividedBy (times_bn tokenOutput (pow10 (- 6)))
                                          (times_bn tokenIn' (pow10 (- d)))))))
         else Inr None)"

definition tokenToXtzMarketRate ::
  "DexCalculations \<Rightarrow> Math_pow \<Rightarrow> numericInput \<Rightarrow> numericInput \<Rightarrow> int \<Rightarrow>
   BigNumber option" where
  "tokenToXtzMarketRate this pow10 xtzPool tokenPool decimals =
     (let xtzPool' = xtzPool; tokenPool' = tokenPool; decimals' = BigNumber_of_int decimals
      in if gtZero xtzPool' \<and> gtZero tokenPool' \<and> geqZero decimals'
         then
           (let xtzPool'' = times_bn xtzPool' (pow10 (- 6));
                tokenPool'' = times_bn tokenPool' (pow10 (- decimals))
            in Some (dividedBy xtzPool'' tokenPool''))
         else None)"

definition tokenToXtzPriceImpact ::
  "DexCalculations \<Rightarrow> numericInput \<Rightarrow> numericInput \<Rightarrow> numericInput \<Rightarrow> rat \<Rightarrow>
   BigNumber option" where
  "tokenToXtzPriceImpact this tokenIn xtzPool tokenPool burnPercent =
     (let burn = multiplier burnPercent;
          tokenIn' = tokenIn;
          xtzPool' = (if isLbContract this then creditSubsidy xtzPool else xtzPool);
          tokenPool' = tokenPool
      in if gtZero tokenIn' \<and> gtZero xtzPool' \<and> gtZero tokenPool'
         then
           (let midPrice = dividedBy xtzPool' tokenPool';
                xtzBought = dividedBy (times_bn tokenIn' xtzPool') (plus_bn tokenIn' tokenPool');
                xtzBoughtNetBurn =
                  dividedBy (times_bn xtzBought (BigNumber_of_int burn)) (BigNumber_of_int 1000)
            in if leqZero xtzBoughtNetBurn then Some (BigNumber_of_int 0)
               else
                 (let exactQuote = times_bn midPrice tokenIn'
                  in Some (dividedBy (minus_bn exactQuote xtzBoughtNetBurn) exactQuote)))
         else None)"

definition tokenToXtzMinimumXtzOutput ::
  "DexCalculations \<Rightarrow> BigNumber \<Rightarrow> rat \<Rightarrow> BigNumber option" where
  "tokenToXtzMinimumXtzOutput this xtzOut allowedSlippage =
     (let allowedSlippage = to_double allowedSlippage
      in if gtZero xtzOut \<and> 0 \<le> allowedSlippage \<and> allowedSlippage \<le> 1
      then
        (let xtzOut' = times_bn xtzOut (BigNumber_of_int 1000);
             allowedSlippage' = BigNumber_of_int (slippage_scaled allowedSlippage);
             result =
               dividedBy
                 (minus_bn xtzOut'
                    (dividedBy (times_bn xtzOut' allowedSlippage') (BigNumber_of_int 100000)))
                 (BigNumber_of_int 1000)
         in Some (BigNumber_maximum result (BigNumber_of_int 1)))
      else None)"

subsection \<open>addLiquidity entrypoint functions\<close>

text \<open>
  \<^verbatim>\<open>addLiquidityLiquidityCreated\<close> validates \<^verbatim>\<open>xtzIn_\<close> and the credited
  \<^verbatim>\<open>xtzPool_\<close>, and both of its branches compute from the arguments themselves.
\<close>

definition addLiquidityLiquidityCreated ::
  "DexCalculations \<Rightarrow> numericInput \<Rightarrow> numericInput \<Rightarrow> numericInput \<Rightarrow> BigNumber option" where
  "addLiquidityLiquidityCreated this xtzIn xtzPool totalLiquidity =
     (let xtzIn' = xtzIn;
          xtzPool' = (if isLbContract this then creditSubsidy xtzPool else xtzPool);
          totalLiquidity' = totalLiquidity
      in if gtZero xtzIn' \<and> gtZero xtzPool'
         then
           (if eqZero totalLiquidity'
            then Some (dividedBy (times_bn xtzIn totalLiquidity) xtzPool)
            else if gtZero totalLiquidity'
            then Some (dividedBy (times_bn xtzIn totalLiquidity) xtzPool)
            else None)
         else None)"

definition addLiquidityTokenIn ::
  "DexCalculations \<Rightarrow> numericInput \<Rightarrow> numericInput \<Rightarrow> numericInput \<Rightarrow> BigNumber option" where
  "addLiquidityTokenIn this xtzIn xtzPool tokenPool =
     (let xtzIn' = xtzIn;
          xtzPool' = (if isLbContract this then creditSubsidy xtzPool else xtzPool);
          tokenPool' = tokenPool
      in if gtZero xtzIn' \<and> gtZero xtzPool' \<and> gtZero tokenPool'
         then Some (ceilingDiv (times_bn xtzIn' tokenPool') xtzPool')
         else None)"

definition addLiquidityXtzIn ::
  "DexCalculations \<Rightarrow> numericInput \<Rightarrow> numericInput \<Rightarrow> numericInput \<Rightarrow> BigNumber option" where
  "addLiquidityXtzIn this tokenIn xtzPool tokenPool =
     (let tokenIn' = tokenIn;
          xtzPool' = (if isLbContract this then creditSubsidy xtzPool else xtzPool);
          tokenPool' = tokenPool
      in if gtZero tokenIn' \<and> gtZero xtzPool' \<and> gtZero tokenPool'
         then Some (dividedBy (times_bn tokenIn' xtzPool') tokenPool')
         else None)"

subsection \<open>removeLiquidity entrypoint functions\<close>

definition removeLiquidityTokenOut ::
  "DexCalculations \<Rightarrow> numericInput \<Rightarrow> numericInput \<Rightarrow> numericInput \<Rightarrow> BigNumber option" where
  "removeLiquidityTokenOut this liquidityBurned totalLiquidity tokenPool =
     (let liquidityBurned' = liquidityBurned;
          totalLiquidity' = totalLiquidity;
          tokenPool' = tokenPool
      in if gtZero liquidityBurned' \<and> gtZero totalLiquidity' \<and> gtZero tokenPool'
         then Some (dividedBy (times_bn tokenPool' liquidityBurned') totalLiquidity')
         else None)"

definition removeLiquidityXtzOut ::
  "DexCalculations \<Rightarrow> numericInput \<Rightarrow> numericInput \<Rightarrow> numericInput \<Rightarrow> BigNumber option" where
  "removeLiquidityXtzOut this liquidityBurned totalLiquidity xtzPool =
     (let liquidityBurned' = liquidityBurned;
          totalLiquidity' = totalLiquidity;
          xtzPool' = (if isLbContract this then creditSubsidy xtzPool else xtzPool)
      in if gtZero liquidityBurned' \<and> gtZero totalLiquidity' \<and> gtZero xtzPool'
         then Some (dividedBy (times_bn xtzPool' liquidityBurned') totalLiquidity')
         else None)"

subsection \<open>Terms of the statements\<close>

text \<open>A rational with at most \<^verbatim>\<open>DECIMAL_PLACES\<close> decimals: rounding leaves it as it is.\<close>

definition representable :: "rat \<Rightarrow> bool" where
  "representable q = (round_half_up DECIMAL_PLACES q = q)"

text \<open>The two instances: a plain exchange and a liquidity-baking contract.\<close>

definition plain :: DexCalculations where
  "plain = new_DexCalculations None"

definition liquidityBaking :: DexCalculations where
  "liquidityBaking = new_DexCalculations (Some True)"

text \<open>The pool that a function validates: credited when the flag is set.\<close>

definition creditedPool :: "DexCalculations \<Rightarrow> BigNumber \<Rightarrow> BigNumber" where
  "creditedPool this xtzPool = (if isLbContract this then creditSubsidy xtzPool else xtzPool)"

text \<open>
  The forward quote as the specification words it,
  \<open>(input * counterPool * feeMultiplier) / (inputSidePool * 1,000,000 + input * feeMultiplier)\<close>,
  and its token to XTZ form with the fee alone in the denominator, both over the rationals.
\<close>

definition spec_forward_quote :: "rat \<Rightarrow> rat \<Rightarrow> rat \<Rightarrow> int \<Rightarrow> rat" where
  "spec_forward_quote input counterPool inputSidePool feeMultiplier =
     (input * counterPool * of_int feeMultiplier)
       / (inputSidePool * 1000000 + input * of_int feeMultiplier)"

definition spec_tokenToXtz_quote :: "rat \<Rightarrow> rat \<Rightarrow> rat \<Rightarrow> int \<Rightarrow> int \<Rightarrow> rat" where
  "spec_tokenToXtz_quote tokenIn xtzPool tokenPool fee burn =
     (tokenIn * xtzPool * of_int fee * of_int burn)
       / (tokenPool * 1000000 + tokenIn * of_int fee * 1000)"

text \<open>
  The tolerance of a round trip.  Forward and inverse quote each round one quotient to
  \<^verbatim>\<open>DECIMAL_PLACES\<close>, by at most \<open>5 * 10^-21\<close>; the inverse quote magnifies the error of
  the forward quote by at most \<open>(c + i)^2 / (c * counterPool)\<close>, where \<open>i\<close> is the
  input and \<open>c\<close> the pool of the input side scaled by the fee: \<open>xtzPool * 10^6 /
  feeMultiplier\<close> from XTZ to token, \<open>tokenPool * 1000 / fee\<close> from token to XTZ.
\<close>

definition round_trip_tolerance :: "rat \<Rightarrow> rat \<Rightarrow> rat \<Rightarrow> rat" where
  "round_trip_tolerance c counterPool i =
     (1 + (c + i)\<^sup>2 / (c * counterPool)) / (2 * 10 ^ DECIMAL_PLACES)"

text \<open>
  The net proceeds that the price impact functions compute before their test: the local
  \<^verbatim>\<open>tokensBought\<close> of \<^verbatim>\<open>xtzToTokenPriceImpact\<close> and the local
  \<^verbatim>\<open>xtzBoughtNetBurn\<close> of \<^verbatim>\<open>tokenToXtzPriceImpact\<close>, from the validated values.
\<close>

definition tokensBought :: "BigNumber \<Rightarrow> BigNumber \<Rightarrow> BigNumber \<Rightarrow> rat \<Rightarrow> BigNumber" where
  "tokensBought xtzIn' xtzPool' tokenPool' burnPercent =
     (let xtzInNetBurn =
            dividedBy (times_bn xtzIn' (BigNumber_of_int (multiplier burnPercent)))
                      (BigNumber_of_int 1000)
      in dividedBy (times_bn xtzInNetBurn tokenPool') (plus_bn xtzInNetBurn xtzPool'))"

definition xtzBoughtNetBurn :: "BigNumber \<Rightarrow> BigNumber \<Rightarrow> BigNumber \<Rightarrow> rat \<Rightarrow> BigNumber" where
  "xtzBoughtNetBurn tokenIn' xtzPool' tokenPool' burnPercent =
     (let xtzBought = dividedBy (times_bn tokenIn' xtzPool') (plus_bn tokenIn' tokenPool')
      in dividedBy (times_bn xtzBought (BigNumber_of_int (multiplier burnPercent)))
                   (BigNumber_of_int 1000))"

section \<open>Facts about the decimal arithmetic\<close>

lemma floor_rat_numeral_divide:
  "\<lfloor>numeral a / numeral b :: rat\<rfloor> = numeral a div numeral b"
  by (metis floor_divide_of_int_eq of_int_numeral)

lemma gtZero_simps [simp]:
  "gtZero (Fin q) = (0 < q)" "gtZero NegZero = False" "gtZero PInf = True"
  "gtZero NInf = False" "gtZero NaN = False"
  by (simp_all add: gtZero_def isGreaterThan_def BigNumber_of_int_def)

lemma geqZero_simps [simp]:
  "geqZero (Fin q) = (0 \<le> q)" "geqZero NegZero = True" "geqZero PInf = True"
  "geqZero NInf = False" "geqZero NaN = False"
  by (auto simp add: geqZero_def isGreaterThanOrEqualTo_def BigNumber_of_int_def)

lemma leqZero_simps [simp]:
  "leqZero (Fin q) = (q \<le> 0)" "leqZero NegZero = True" "leqZero PInf = False"
  "leqZero NInf = True" "leqZero NaN = False"
  by (auto simp add: leqZero_def isLessThanOrEqualTo_def BigNumber_of_int_def)

lemma eqZero_simps [simp]:
  "eqZero (Fin q) = (q = 0)" "eqZero NegZero = True" "eqZero PInf = False"
  "eqZero NInf = False" "eqZero NaN = False"
  by (simp_all add: eqZero_def)

lemma times_bn_Fin:
  "times_bn (Fin a) (Fin b) =
     (if a * b = 0 then zero_of_sign ((a < 0) \<noteq> (b < 0)) else Fin (a * b))"
  by (simp add: times_bn_def finite_of_sign_def)

lemma times_bn_Fin_nonneg:
  "0 \<le> a \<Longrightarrow> 0 \<le> b \<Longrightarrow> times_bn (Fin a) (Fin b) = Fin (a * b)"
  by (auto simp add: times_bn_Fin zero_of_sign_def)

lemma plus_bn_Fin [simp]: "plus_bn (Fin a) (Fin b) = Fin (a + b)"
  by (simp add: plus_bn_def finite_of_sign_def zero_of_sign_def)

lemma minus_bn_Fin [simp]: "minus_bn (Fin a) (Fin b) = Fin (a - b)"
  by (simp add: minus_bn_def negated_def plus_bn_def finite_of_sign_def zero_of_sign_def)

lemma dividedBy_Fin:
  "b \<noteq> 0 \<Longrightarrow> dividedBy (Fin a) (Fin b) =
     finite_of_sign ((a < 0) \<noteq> (b < 0)) (round_half_up DECIMAL_PLACES (a / b))"
  by (simp add: dividedBy_def)

lemma round_half_up_nonneg: "0 \<le> q \<Longrightarrow> 0 \<le> round_half_up dp q"
  by (simp add: round_half_up_def)

lemma round_half_up_zero [simp]: "round_half_up dp 0 = 0"
proof -
  have "\<lfloor>1 / 2 :: rat\<rfloor> = 0" by (simp add: floor_eq_iff)
  then show ?thesis by (simp add: round_half_up_def)
qed

lemma round_half_up_nonpos: "q \<le> 0 \<Longrightarrow> round_half_up dp q \<le> 0"
proof (cases "q < 0")
  case True
  then have "0 \<le> (- q) * 10 ^ dp" by (intro mult_nonneg_nonneg) simp_all
  then have "0 \<le> (- q) * 10 ^ dp + 1 / 2" by linarith
  then have "0 \<le> \<lfloor>(- q) * 10 ^ dp + 1 / 2\<rfloor>" by (simp only: zero_le_floor)
  then show ?thesis using True by (simp add: round_half_up_def)
next
  case False
  assume "q \<le> 0"
  with False have "q = 0" by simp
  then show ?thesis by simp
qed

lemma round_half_up_of_int: "round_half_up dp (of_int k / 10 ^ dp) = of_int k / 10 ^ dp"
proof -
  have *: "\<lfloor>(of_int j :: rat) + 1 / 2\<rfloor> = j" for j
    by (simp add: floor_eq_iff)
  show ?thesis
    using *[of k] *[of "- k"]
    by (auto simp add: round_half_up_def)
qed

lemma round_half_up_mono:
  assumes "q \<le> r"
  shows "round_half_up dp q \<le> round_half_up dp r"
proof -
  have p: "(0::rat) < 10 ^ dp" by simp
  have m: "a \<le> b \<Longrightarrow> \<lfloor>a * 10 ^ dp + 1 / 2\<rfloor> \<le> \<lfloor>b * 10 ^ dp + 1 / 2\<rfloor>" for a b :: rat
    by (intro floor_mono) (simp add: p)
  consider "q < 0" "r < 0" | "q < 0" "0 \<le> r" | "0 \<le> q" "0 \<le> r"
    using assms by linarith
  then show ?thesis
  proof cases
    case 1
    have "\<lfloor>(- r) * 10 ^ dp + 1 / 2\<rfloor> \<le> \<lfloor>(- q) * 10 ^ dp + 1 / 2\<rfloor>"
      using m[of "- r" "- q"] assms by simp
    then show ?thesis using 1 p
      by (simp add: round_half_up_def divide_le_cancel)
  next
    case 2
    then show ?thesis
      using round_half_up_nonpos[of q dp] round_half_up_nonneg[of r dp] by linarith
  next
    case 3
    then show ?thesis using m[OF assms] p
      by (simp add: round_half_up_def divide_le_cancel)
  qed
qed

lemma round_half_up_error: "\<bar>round_half_up dp q - q\<bar> \<le> 1 / (2 * 10 ^ dp)"
proof -
  have p: "(0::rat) < 10 ^ dp" by simp
  have b: "\<bar>of_int \<lfloor>x + 1 / 2\<rfloor> - x\<bar> \<le> 1 / 2" for x :: rat
    by linarith
  have e: "\<bar>of_int \<lfloor>x * 10 ^ dp + 1 / 2\<rfloor> / 10 ^ dp - x\<bar> \<le> 1 / (2 * 10 ^ dp)" for x :: rat
  proof -
    have "of_int \<lfloor>x * 10 ^ dp + 1 / 2\<rfloor> / 10 ^ dp - x =
          (of_int \<lfloor>x * 10 ^ dp + 1 / 2\<rfloor> - x * 10 ^ dp) / 10 ^ dp"
      using p by (simp add: field_simps)
    then have "\<bar>of_int \<lfloor>x * 10 ^ dp + 1 / 2\<rfloor> / 10 ^ dp - x\<bar> =
          \<bar>of_int \<lfloor>x * 10 ^ dp + 1 / 2\<rfloor> - x * 10 ^ dp\<bar> / 10 ^ dp"
      using p by (simp add: abs_divide)
    also have "\<dots> \<le> (1 / 2) / 10 ^ dp"
      using b[of "x * 10 ^ dp"] p by (intro divide_right_mono) simp_all
    finally show ?thesis by simp
  qed
  show ?thesis
  proof (cases "q < 0")
    case True
    have "\<bar>round_half_up dp q - q\<bar> = \<bar>of_int \<lfloor>(- q) * 10 ^ dp + 1 / 2\<rfloor> / 10 ^ dp - (- q)\<bar>"
      using True by (simp add: round_half_up_def abs_minus_commute) 
    then show ?thesis using e[of "- q"] by simp
  next
    case False
    then show ?thesis using e[of q] by (simp add: round_half_up_def)
  qed
qed

lemma isLbContract_plain [simp]: "isLbContract plain = False"
  by (simp add: plain_def new_DexCalculations_def)

lemma isLbContract_liquidityBaking [simp]: "isLbContract liquidityBaking = True"
  by (simp add: liquidityBaking_def new_DexCalculations_def)

lemma creditSubsidy_Fin [simp]: "creditSubsidy (Fin x) = Fin (x + 2500000)"
  by (simp add: creditSubsidy_def BigNumber_of_int_def)

lemma dividedBy_Fin_pos:
  "0 \<le> a \<Longrightarrow> 0 < b \<Longrightarrow>
   dividedBy (Fin a) (Fin b) = Fin (round_half_up DECIMAL_PLACES (a / b))"
  by (simp add: dividedBy_Fin finite_of_sign_def zero_of_sign_def)

lemma mod_bn_Fin_nonneg:
  assumes "0 \<le> x" "0 < y"
  shows "geqZero (mod_bn (Fin x) (Fin y))"
proof -
  have "of_int \<lfloor>x / y\<rfloor> \<le> x / y" by simp
  then have "of_int \<lfloor>x / y\<rfloor> * y \<le> x"
    using assms pos_le_divide_eq[of y "of_int \<lfloor>x / y\<rfloor>" x] by blast
  moreover have "\<not> x / y < 0" using assms by (simp add: not_less)
  ultimately show ?thesis
    using assms by (simp add: mod_bn_def finite_of_sign_def zero_of_sign_def truncated_def)
qed

lemma ceilingDiv_adds_one:
  assumes "0 \<le> x" "0 < y"
  shows "ceilingDiv (Fin x) (Fin y) = Fin (round_half_up DECIMAL_PLACES (x / y) + 1)"
  using mod_bn_Fin_nonneg[OF assms] assms
  by (simp add: ceilingDiv_def Let_def geqZero_def BigNumber_of_int_def dividedBy_Fin_pos)

section \<open>Ceiling division\<close>

text \<open>
  C1.  The claim: for non-negative \<open>x\<close> and positive \<open>y\<close>, \<^verbatim>\<open>ceilingDiv(x, y)\<close> is
  the ceiling of \<open>x / y\<close>, and equals \<open>x / y\<close> when \<open>y\<close> divides \<open>x\<close>.  The function
  tests the remainder with \<^verbatim>\<open>isGreaterThanOrEqualTo\<close> where its comment says
  \<^verbatim>\<open>rem(x,y) > 0\<close>, and divides with \<^verbatim>\<open>dividedBy\<close>, which keeps the decimals: on
  6 and 3 it gives 3 where the ceiling is 2, on 7 and 2 it gives 4.5 where the ceiling is 4
  (\<open>ceilingDiv_adds_one\<close> above is the general form), and \<^verbatim>\<open>addLiquidityTokenIn\<close>
  asks for 3 tokens where \<open>6 * 1 / 3 = 2\<close> are due.
\<close>

theorem ceilingDiv_exact_division_adds_one:
  "ceilingDiv (Fin 6) (Fin 3) = Fin 3
   \<and> ceilingDiv (Fin 7) (Fin 2) = Fin (9 / 2)
   \<and> addLiquidityTokenIn plain (Fin 6) (Fin 3) (Fin 1) = Some (Fin 3)"
  by code_simp

section \<open>The subsidy flag\<close>

text \<open>
  In the functions that compute from the credited pool, the flag is the same as adding
  2,500,000 to the pool argument.
\<close>

lemma subsidy_xtzToTokenTokenOutput:
  "xtzToTokenTokenOutput liquidityBaking xtzIn xtzPool tokenPool feePercent burnPercent
     = xtzToTokenTokenOutput plain xtzIn (creditSubsidy xtzPool) tokenPool feePercent burnPercent"
  by (simp add: xtzToTokenTokenOutput_def)

lemma subsidy_xtzToTokenXtzInput:
  "xtzToTokenXtzInput liquidityBaking tokenOut xtzPool tokenPool decimals feePercent burnPercent
     = xtzToTokenXtzInput plain tokenOut (creditSubsidy xtzPool) tokenPool decimals
         feePercent burnPercent"
  by (simp add: xtzToTokenXtzInput_def)

lemma subsidy_tokenToXtzTokenInput:
  "tokenToXtzTokenInput liquidityBaking xtzOut xtzPool tokenPool decimals feePercent burnPercent
     = tokenToXtzTokenInput plain xtzOut (creditSubsidy xtzPool) tokenPool decimals
         feePercent burnPercent"
  by (simp add: tokenToXtzTokenInput_def)

lemma subsidy_xtzToTokenPriceImpact:
  "xtzToTokenPriceImpact liquidityBaking xtzIn xtzPool tokenPool burnPercent
     = xtzToTokenPriceImpact plain xtzIn (creditSubsidy xtzPool) tokenPool burnPercent"
  by (simp add: xtzToTokenPriceImpact_def)

lemma subsidy_tokenToXtzPriceImpact:
  "tokenToXtzPriceImpact liquidityBaking tokenIn xtzPool tokenPool burnPercent
     = tokenToXtzPriceImpact plain tokenIn (creditSubsidy xtzPool) tokenPool burnPercent"
  by (simp add: tokenToXtzPriceImpact_def)

lemma subsidy_addLiquidityTokenIn:
  "addLiquidityTokenIn liquidityBaking xtzIn xtzPool tokenPool
     = addLiquidityTokenIn plain xtzIn (creditSubsidy xtzPool) tokenPool"
  by (simp add: addLiquidityTokenIn_def)

lemma subsidy_addLiquidityXtzIn:
  "addLiquidityXtzIn liquidityBaking tokenIn xtzPool tokenPool
     = addLiquidityXtzIn plain tokenIn (creditSubsidy xtzPool) tokenPool"
  by (simp add: addLiquidityXtzIn_def)

lemma subsidy_removeLiquidityXtzOut:
  "removeLiquidityXtzOut liquidityBaking liquidityBurned totalLiquidity xtzPool
     = removeLiquidityXtzOut plain liquidityBurned totalLiquidity (creditSubsidy xtzPool)"
  by (simp add: removeLiquidityXtzOut_def)

text \<open>
  C2.  The claim: for every subsidy-aware function, the flag set on \<open>xtzPool\<close> gives the
  result of the flag unset on \<open>xtzPool + 2,500,000\<close>.  \<^verbatim>\<open>tokenToXtzXtzOutput\<close> and
  \<^verbatim>\<open>addLiquidityLiquidityCreated\<close> credit \<^verbatim>\<open>xtzPool_\<close>, validate it, and then compute
  from the uncredited argument \<^verbatim>\<open>xtzPool\<close>, so the flag changes nothing in their
  result: on a pool of 1,000,000 the flagged calls give 500000 and 5, the unflagged calls on
  3,500,000 give 1750000 and 1.42857142857142857143.
\<close>

theorem subsidy_ignored_by_raw_pool_formulas:
  "tokenToXtzXtzOutput liquidityBaking (Fin 1000) (Fin 1000000) (Fin 1000) 0 0
     = Some (Fin 500000)
   \<and> tokenToXtzXtzOutput plain (Fin 1000) (Fin (1000000 + 2500000)) (Fin 1000) 0 0
     = Some (Fin 1750000)
   \<and> addLiquidityLiquidityCreated liquidityBaking (Fin 1000) (Fin 1000000) (Fin 5000)
     = Some (Fin 5)
   \<and> addLiquidityLiquidityCreated plain (Fin 1000) (Fin (1000000 + 2500000)) (Fin 5000)
     = Some (Fin (142857142857142857143 / 100000000000000000000))"
  by code_simp

section \<open>Dust trades\<close>

text \<open>
  C5.  The claim: with fee and burn 0, the floors of \<^verbatim>\<open>xtzToTokenTokenOutput\<close> on
  (5, 100000, 10), (500000, 100000, 10) and (1000000, 1000000000, 250000) are 0, 1 and 248,
  the values the test of the function expects.  The function gives 0.000499975...,
  8.33333333333333333333 and 249.75024975024975024975, whose floors are 0, 8 and 249.
\<close>

theorem dust_trade_floors:
  "map_option (\<lambda>r. \<lfloor>valueOf r\<rfloor>)
     (xtzToTokenTokenOutput plain (Fin 5) (Fin 100000) (Fin 10) (Some 0) (Some 0)) = Some 0
   \<and> map_option (\<lambda>r. \<lfloor>valueOf r\<rfloor>)
     (xtzToTokenTokenOutput plain (Fin 500000) (Fin 100000) (Fin 10) (Some 0) (Some 0)) = Some 8
   \<and> map_option (\<lambda>r. \<lfloor>valueOf r\<rfloor>)
     (xtzToTokenTokenOutput plain (Fin 1000000) (Fin 1000000000) (Fin 250000) (Some 0) (Some 0))
       = Some 249"
  by code_simp

text \<open>
  The expected values 0, 1 and 248 are those of the liquidity-baking instance with a fee
  and a burn of 0.1 percent.
\<close>

lemma dust_trade_floors_liquidityBaking:
  "map_option (\<lambda>r. \<lfloor>valueOf r\<rfloor>)
     (xtzToTokenTokenOutput liquidityBaking (Fin 5) (Fin 100000) (Fin 10)
        (Some (1 / 10)) (Some (1 / 10))) = Some 0
   \<and> map_option (\<lambda>r. \<lfloor>valueOf r\<rfloor>)
     (xtzToTokenTokenOutput liquidityBaking (Fin 500000) (Fin 100000) (Fin 10)
        (Some (1 / 10)) (Some (1 / 10))) = Some 1
   \<and> map_option (\<lambda>r. \<lfloor>valueOf r\<rfloor>)
     (xtzToTokenTokenOutput liquidityBaking (Fin 1000000) (Fin 1000000000) (Fin 250000)
        (Some (1 / 10)) (Some (1 / 10))) = Some 248"
  by code_simp

section \<open>Liquidity created\<close>

text \<open>
  C8.  For \<open>xtzIn > 0\<close> and \<open>xtzPool > 0\<close>, with either value of the flag, the branch for
  a zero and the branch for a positive \<open>totalLiquidity\<close> of
  \<^verbatim>\<open>addLiquidityLiquidityCreated\<close> return the same expression, the quotient
  \<open>xtzIn * totalLiquidity / xtzPool\<close> as \<^verbatim>\<open>dividedBy\<close> gives it; for
  \<open>totalLiquidity = 0\<close> the result is exactly 0.
\<close>

theorem addLiquidityLiquidityCreated_same_formula:
  assumes "0 < xtzIn" "0 < xtzPool" "0 \<le> totalLiquidity"
  shows "addLiquidityLiquidityCreated this (Fin xtzIn) (Fin xtzPool) (Fin totalLiquidity)
           = Some (dividedBy (times_bn (Fin xtzIn) (Fin totalLiquidity)) (Fin xtzPool))
         \<and> dividedBy (times_bn (Fin xtzIn) (Fin totalLiquidity)) (Fin xtzPool)
           = Fin (round_half_up DECIMAL_PLACES (xtzIn * totalLiquidity / xtzPool))
         \<and> addLiquidityLiquidityCreated this (Fin xtzIn) (Fin xtzPool) (Fin 0) = Some (Fin 0)"
proof -
  have e: "0 < xtzPool + 2500000" using assms by simp
  have n: "0 \<le> xtzIn * totalLiquidity" using assms by simp
  have t: "times_bn (Fin xtzIn) (Fin totalLiquidity) = Fin (xtzIn * totalLiquidity)"
    using assms by (simp add: times_bn_Fin_nonneg)
  have t0: "times_bn (Fin xtzIn) (Fin 0) = Fin 0"
    using assms by (simp add: times_bn_Fin_nonneg)
  have d: "dividedBy (Fin (xtzIn * totalLiquidity)) (Fin xtzPool)
             = Fin (round_half_up DECIMAL_PLACES (xtzIn * totalLiquidity / xtzPool))"
    using n assms by (simp add: dividedBy_Fin_pos)
  have d0: "dividedBy (Fin 0) (Fin xtzPool) = Fin 0"
    using assms dividedBy_Fin_pos[of 0 xtzPool] by simp
  show ?thesis
    using assms e t t0 d d0
    by (auto simp add: addLiquidityLiquidityCreated_def Let_def)
qed

theorem addLiquidityLiquidityCreated_same_formula_witness:
  "(0::rat) < 1000 \<and> (0::rat) < 1000000 \<and> (0::rat) \<le> 5000
   \<and> addLiquidityLiquidityCreated plain (Fin 1000) (Fin 1000000) (Fin 5000) = Some (Fin 5)
   \<and> addLiquidityLiquidityCreated plain (Fin 1000) (Fin 1000000) (Fin 0) = Some (Fin 0)"
proof -
  have h: "(0::rat) < 1000" "(0::rat) < 1000000" "(0::rat) \<le> 5000" by simp_all
  have v: "dividedBy (times_bn (Fin 1000) (Fin 5000)) (Fin 1000000) = Fin 5" by code_simp
  show ?thesis
    using addLiquidityLiquidityCreated_same_formula[OF h, of plain] v by simp
qed

section \<open>Forward quotes\<close>

lemma multiplier_bounds:
  assumes "0 \<le> p" "p \<le> 100"
  shows "0 \<le> multiplier p" "multiplier p \<le> 1000"
proof -
  have "p * 10 < of_int 1000 + 1" using assms by simp
  then have "\<lfloor>p * 10\<rfloor> \<le> 1000" by (simp only: floor_le_iff)
  then show "0 \<le> multiplier p" by (simp add: multiplier_def)
  have "0 \<le> \<lfloor>p * 10\<rfloor>" using assms by simp
  then show "multiplier p \<le> 1000" by (simp add: multiplier_def)
qed

lemma multiplier_pos:
  assumes "p < 100"
  shows "0 < multiplier p"
proof -
  have "p * 10 < of_int 1000" using assms by simp
  then have "\<lfloor>p * 10\<rfloor> < 1000" by (simp only: floor_less_iff)
  then show ?thesis by (simp add: multiplier_def)
qed

lemma optional_multiplier_Some [simp]: "optional_multiplier (Some p) = multiplier p"
  by (simp add: optional_multiplier_def multiplier_def)

lemma xtzToTokenTokenOutput_Fin:
  assumes "0 < xtzIn" "0 < xtzPool" "0 < tokenPool"
    and "0 \<le> feePercent" "feePercent \<le> 100" "0 \<le> burnPercent" "burnPercent \<le> 100"
  shows "xtzToTokenTokenOutput plain (Fin xtzIn) (Fin xtzPool) (Fin tokenPool)
           (Some feePercent) (Some burnPercent)
         = Some (Fin (round_half_up DECIMAL_PLACES
             (spec_forward_quote xtzIn tokenPool xtzPool
                (multiplier feePercent * multiplier burnPercent))))"
proof -
  define m where "m = multiplier feePercent * multiplier burnPercent"
  have m: "0 \<le> m"
    using multiplier_bounds(1)[OF assms(4,5)] multiplier_bounds(1)[OF assms(6,7)]
    by (simp add: m_def)
  then have mr: "(0::rat) \<le> of_int m" by simp
  have n: "times_bn (times_bn (Fin xtzIn) (Fin tokenPool)) (Fin (of_int m))
             = Fin (xtzIn * tokenPool * of_int m)"
    using assms(1,3) mr by (simp add: times_bn_Fin_nonneg)
  have d: "plus_bn (times_bn (Fin xtzPool) (Fin 1000000)) (times_bn (Fin xtzIn) (Fin (of_int m)))
             = Fin (xtzPool * 1000000 + xtzIn * of_int m)"
    using assms(1,2) mr by (simp add: times_bn_Fin_nonneg)
  have dpos: "0 < xtzPool * 1000000 + xtzIn * of_int m"
    using assms(1,2) mr by (simp add: add_pos_nonneg)
  have npos: "0 \<le> xtzIn * tokenPool * of_int m"
    using assms(1,3) mr by simp
  show ?thesis
    using assms(1-3) n d dividedBy_Fin_pos[OF npos dpos]
    by (simp add: xtzToTokenTokenOutput_def Let_def BigNumber_of_int_def m_def[symmetric]
        spec_forward_quote_def)
qed

lemma tokenToXtzXtzOutput_Fin:
  assumes "0 < tokenIn" "0 < xtzPool" "0 < tokenPool"
    and "0 \<le> feePercent" "feePercent \<le> 100" "0 \<le> burnPercent" "burnPercent \<le> 100"
  shows "tokenToXtzXtzOutput plain (Fin tokenIn) (Fin xtzPool) (Fin tokenPool)
           feePercent burnPercent
         = Some (Fin (round_half_up DECIMAL_PLACES
             (spec_tokenToXtz_quote tokenIn xtzPool tokenPool
                (multiplier feePercent) (multiplier burnPercent))))"
proof -
  define f where "f = multiplier feePercent"
  define b where "b = multiplier burnPercent"
  have f: "0 \<le> f" and b: "0 \<le> b"
    using multiplier_bounds(1)[OF assms(4,5)] multiplier_bounds(1)[OF assms(6,7)]
    by (simp_all add: f_def b_def)
  then have fr: "(0::rat) \<le> of_int f * of_int b" "(0::rat) \<le> of_int f * 1000" by simp_all
  have n: "times_bn (times_bn (Fin tokenIn) (Fin xtzPool)) (Fin (of_int f * of_int b))
             = Fin (tokenIn * xtzPool * (of_int f * of_int b))"
    using assms(1,2) fr by (simp add: times_bn_Fin_nonneg)
  have d: "plus_bn (times_bn (Fin tokenPool) (Fin 1000000))
                   (times_bn (Fin tokenIn) (Fin (of_int f * 1000)))
             = Fin (tokenPool * 1000000 + tokenIn * (of_int f * 1000))"
    using assms(1,3) fr by (simp add: times_bn_Fin_nonneg)
  have dpos: "0 < tokenPool * 1000000 + tokenIn * (of_int f * 1000)"
    using assms(1,3) fr by (simp add: add_pos_nonneg)
  have npos: "0 \<le> tokenIn * xtzPool * (of_int f * of_int b)"
    using assms(1,2) fr by simp
  show ?thesis
    using assms(1-3) n d dividedBy_Fin_pos[OF npos dpos]
    by (simp add: tokenToXtzXtzOutput_def Let_def BigNumber_of_int_def
        f_def[symmetric] b_def[symmetric] spec_tokenToXtz_quote_def mult.assoc)
qed

text \<open>
  C4.  The claim: with the subsidy off, \<^verbatim>\<open>xtzToTokenTokenOutput\<close> returns exactly
  \<open>(xtzIn * tokenPool * feeMultiplier) / (xtzPool * 1,000,000 + xtzIn * feeMultiplier)\<close>
  by exact division, with no rounding and no floor, and \<^verbatim>\<open>tokenToXtzXtzOutput\<close> returns
  \<open>(tokenIn * xtzPool * fee * burn) / (tokenPool * 1,000,000 + tokenIn * fee * 1000)\<close>.
  As amended: for positive finite inputs and percentages within 0 to 100, each function
  returns that quotient rounded half up to 20 decimals, the rounding of \<^verbatim>\<open>dividedBy\<close>;
  there is no floor to an integer, and the result is within \<open>5 * 10^-21\<close> of the quotient.
\<close>

theorem forward_quotes_are_rounded_quotients:
  assumes "0 < amountIn" "0 < xtzPool" "0 < tokenPool"
    and "0 \<le> feePercent" "feePercent \<le> 100" "0 \<le> burnPercent" "burnPercent \<le> 100"
  shows "xtzToTokenTokenOutput plain (Fin amountIn) (Fin xtzPool) (Fin tokenPool)
           (Some feePercent) (Some burnPercent)
         = Some (Fin (round_half_up DECIMAL_PLACES
             (spec_forward_quote amountIn tokenPool xtzPool
                (multiplier feePercent * multiplier burnPercent))))
       \<and> \<bar>round_half_up DECIMAL_PLACES
             (spec_forward_quote amountIn tokenPool xtzPool
                (multiplier feePercent * multiplier burnPercent))
           - spec_forward_quote amountIn tokenPool xtzPool
                (multiplier feePercent * multiplier burnPercent)\<bar>
           \<le> 1 / (2 * 10 ^ 20)
       \<and> tokenToXtzXtzOutput plain (Fin amountIn) (Fin xtzPool) (Fin tokenPool)
           feePercent burnPercent
         = Some (Fin (round_half_up DECIMAL_PLACES
             (spec_tokenToXtz_quote amountIn xtzPool tokenPool
                (multiplier feePercent) (multiplier burnPercent))))
       \<and> \<bar>round_half_up DECIMAL_PLACES
             (spec_tokenToXtz_quote amountIn xtzPool tokenPool
                (multiplier feePercent) (multiplier burnPercent))
           - spec_tokenToXtz_quote amountIn xtzPool tokenPool
                (multiplier feePercent) (multiplier burnPercent)\<bar>
           \<le> 1 / (2 * 10 ^ 20)"
  using xtzToTokenTokenOutput_Fin[OF assms] tokenToXtzXtzOutput_Fin[OF assms]
    round_half_up_error[of DECIMAL_PLACES]
  by (simp add: DECIMAL_PLACES_def)

text \<open>
  The claim as stated fails where the quotient has more than 20 decimals: on
  \<open>xtzIn = 1\<close>, \<open>xtzPool = 2\<close>, \<open>tokenPool = 1\<close> without fee the quotient is
  \<open>1/3\<close> and the function returns 0.33333333333333333333.
\<close>

theorem forward_quote_not_exact:
  "xtzToTokenTokenOutput plain (Fin 1) (Fin 2) (Fin 1) (Some 0) (Some 0)
     = Some (Fin (33333333333333333333 / 100000000000000000000))
   \<and> spec_forward_quote 1 1 2 (multiplier 0 * multiplier 0) = 1 / 3
   \<and> xtzToTokenTokenOutput plain (Fin 1) (Fin 2) (Fin 1) (Some 0) (Some 0)
     \<noteq> Some (Fin (spec_forward_quote 1 1 2 (multiplier 0 * multiplier 0)))"
  by code_simp

theorem forward_quotes_are_rounded_quotients_witness:
  "xtzToTokenTokenOutput plain (Fin 1) (Fin 2) (Fin 1) (Some 0) (Some 0)
     = Some (Fin (33333333333333333333 / 100000000000000000000))
   \<and> tokenToXtzXtzOutput plain (Fin 1) (Fin 2) (Fin 1) 0 0 = Some (Fin 1)"
proof -
  have h: "(0::rat) < 1" "(0::rat) < 2" "(0::rat) < 1" "(0::rat) \<le> 0" "(0::rat) \<le> 100"
    "(0::rat) \<le> 0" "(0::rat) \<le> 100"
    by simp_all
  have v: "round_half_up DECIMAL_PLACES (spec_forward_quote 1 1 2 (multiplier 0 * multiplier 0))
             = 33333333333333333333 / 100000000000000000000"
    "round_half_up DECIMAL_PLACES (spec_tokenToXtz_quote 1 2 1 (multiplier 0) (multiplier 0))
             = 1"
    by code_simp+
  show ?thesis
    using forward_quotes_are_rounded_quotients[OF h] v by simp
qed

section \<open>Inverse quotes\<close>

lemma Math_pow10_Fin: "0 \<le> d \<Longrightarrow> d \<le> 308 \<Longrightarrow> Math_pow10 d = Fin (10 ^ nat d)"
  by (simp add: Math_pow10_def)

lemma Math_pow10_overflow: "308 < d \<Longrightarrow> Math_pow10 d = PInf"
  by (simp add: Math_pow10_def)

text \<open>Multiplying by a positive finite factor keeps the kind and the sign of a value.\<close>

lemma times_bn_scale:
  assumes "0 < p"
  shows "times_bn NaN (Fin p) = NaN" "times_bn PInf (Fin p) = PInf"
    "times_bn NInf (Fin p) = NInf" "times_bn NegZero (Fin p) = NegZero"
    "times_bn (Fin q) (Fin p) = Fin (q * p)"
  using assms
  by (auto simp add: times_bn_def finite_of_sign_def zero_of_sign_def infinity_of_sign_def
      less_le_not_le)

lemma dividedBy_scale:
  assumes "0 < p"
  shows "dividedBy (times_bn a (Fin p)) (times_bn c (Fin p)) = dividedBy a c"
proof -
  have s: "(q * p < 0) = (q < 0)" for q
    using assms by (simp add: mult_less_0_iff not_less less_imp_le)
  have z: "(q * p = 0) = (q = 0)" for q
    using assms by simp
  have pz: "p \<noteq> 0" "\<not> p < 0"
    using assms by simp_all
  show ?thesis
    by (cases a; cases c) (simp_all add: times_bn_scale[OF assms] dividedBy_def s z pz)
qed

lemma times_bn_assoc_scale:
  assumes "0 < p"
  shows "times_bn c (times_bn (Fin m) (Fin p)) = times_bn (times_bn c (Fin m)) (Fin p)"
proof -
  have s: "(q * p < 0) = (q < 0)" for q
    using assms by (simp add: mult_less_0_iff not_less less_imp_le)
  have z: "(q * p = 0) = (q = 0)" for q
    using assms by simp
  have pz: "p \<noteq> 0" "\<not> p < 0"
    using assms by simp_all
  show ?thesis
    by (cases c)
      (auto simp add: times_bn_scale[OF assms] times_bn_def finite_of_sign_def zero_of_sign_def
        infinity_of_sign_def s z pz mult.assoc)
qed

lemma xtzToTokenXtzInput_decimals:
  assumes "0 \<le> d" "d \<le> 308"
  shows "xtzToTokenXtzInput this tokenOut xtzPool tokenPool d feePercent burnPercent
         = xtzToTokenXtzInput this tokenOut xtzPool tokenPool 0 feePercent burnPercent"
proof -
  have p: "(0::rat) < 10 ^ nat d" by simp
  have one: "(0::rat) < 1" by simp
  show ?thesis
    using assms
    by (simp add: xtzToTokenXtzInput_def Let_def Math_pow10_Fin BigNumber_of_int_def
        times_bn_assoc_scale[OF p] dividedBy_scale[OF p]
        times_bn_assoc_scale[OF one] dividedBy_scale[OF one])
qed

lemma tokenToXtzTokenInput_decimals:
  assumes "0 \<le> d" "d \<le> 308"
  shows "tokenToXtzTokenInput this xtzOut xtzPool tokenPool d feePercent burnPercent
         = tokenToXtzTokenInput this xtzOut xtzPool tokenPool 0 feePercent burnPercent"
proof -
  have p: "(0::rat) < 10 ^ nat d" by simp
  have one: "(0::rat) < 1" by simp
  show ?thesis
    using assms
    by (simp add: tokenToXtzTokenInput_def Let_def Math_pow10_Fin BigNumber_of_int_def
        dividedBy_scale[OF p] dividedBy_scale[OF one])
qed

text \<open>
  C10.  The claim: for any two non-negative decimals values the inverse quotes return the
  same result.  As amended: for any two decimals values from 0 to 308, and any other
  arguments, \<^verbatim>\<open>xtzToTokenXtzInput\<close> returns the same result, and so does
  \<^verbatim>\<open>tokenToXtzTokenInput\<close>: the factor \<open>10^decimals\<close> is positive and finite and
  cancels in the quotient before it is rounded.
\<close>

theorem inverse_quotes_ignore_decimals:
  assumes "0 \<le> d1" "d1 \<le> 308" "0 \<le> d2" "d2 \<le> 308"
  shows "xtzToTokenXtzInput this amountOut xtzPool tokenPool d1 feePercent burnPercent
           = xtzToTokenXtzInput this amountOut xtzPool tokenPool d2 feePercent burnPercent
       \<and> tokenToXtzTokenInput this amountOut xtzPool tokenPool d1 feePercent burnPercent
           = tokenToXtzTokenInput this amountOut xtzPool tokenPool d2 feePercent burnPercent"
  using xtzToTokenXtzInput_decimals[OF assms(1,2)] xtzToTokenXtzInput_decimals[OF assms(3,4)]
    tokenToXtzTokenInput_decimals[OF assms(1,2)] tokenToXtzTokenInput_decimals[OF assms(3,4)]
  by simp

theorem inverse_quotes_ignore_decimals_witness:
  "xtzToTokenXtzInput plain (Fin 1) (Fin 1) (Fin 2) 0 0 0 = Some (Fin 1)
   \<and> xtzToTokenXtzInput plain (Fin 1) (Fin 1) (Fin 2) 18 0 0 = Some (Fin 1)
   \<and> tokenToXtzTokenInput plain (Fin 1) (Fin 2) (Fin 1) 18 0 0
       = tokenToXtzTokenInput plain (Fin 1) (Fin 2) (Fin 1) 0 0 0"
proof -
  have h: "(0::int) \<le> 18" "(18::int) \<le> 308" "(0::int) \<le> 0" "(0::int) \<le> 308" by simp_all
  have v: "xtzToTokenXtzInput plain (Fin 1) (Fin 1) (Fin 2) 0 0 0 = Some (Fin 1)"
    by code_simp
  show ?thesis
    using inverse_quotes_ignore_decimals[OF h, of plain "Fin 1" "Fin 1" "Fin 2" 0 0]
      inverse_quotes_ignore_decimals[OF h, of plain "Fin 1" "Fin 2" "Fin 1" 0 0] v
    by simp
qed

text \<open>
  Above 308 the factor \<^verbatim>\<open>Math.pow(10, decimals)\<close> is \<^verbatim>\<open>Infinity\<close>, numerator and
  denominator are infinite, their quotient is \<^verbatim>\<open>NaN\<close>, and the function returns
  \<^verbatim>\<open>null\<close> where it returns 1 for decimals 0.
\<close>

theorem inverse_quote_decimals_overflow:
  "xtzToTokenXtzInput plain (Fin 1) (Fin 1) (Fin 2) 0 0 0 = Some (Fin 1)
   \<and> xtzToTokenXtzInput plain (Fin 1) (Fin 1) (Fin 2) 309 0 0 = None"
  by code_simp

lemma xtzToTokenXtzInput_Some_gtZero:
  "xtzToTokenXtzInput this tokenOut xtzPool tokenPool d feePercent burnPercent = Some r
   \<Longrightarrow> gtZero r"
  by (auto simp add: xtzToTokenXtzInput_def Let_def split: if_splits)

lemma tokenToXtzTokenInput_Some_gtZero:
  "tokenToXtzTokenInput this xtzOut xtzPool tokenPool d feePercent burnPercent = Some r
   \<Longrightarrow> gtZero r"
  by (auto simp add: tokenToXtzTokenInput_def Let_def split: if_splits)

lemma creditedPool_Fin [simp]:
  "creditedPool this (Fin x) = Fin (if isLbContract this then x + 2500000 else x)"
  by (simp add: creditedPool_def)

lemma creditedPool_plain [simp]: "creditedPool plain x = x"
  by (simp add: creditedPool_def)

lemma xtzToTokenXtzInput_credited:
  "xtzToTokenXtzInput this tokenOut xtzPool tokenPool d feePercent burnPercent
     = xtzToTokenXtzInput plain tokenOut (creditedPool this xtzPool) tokenPool d
         feePercent burnPercent"
  by (simp add: xtzToTokenXtzInput_def creditedPool_def)

lemma tokenToXtzTokenInput_credited:
  "tokenToXtzTokenInput this xtzOut xtzPool tokenPool d feePercent burnPercent
     = tokenToXtzTokenInput plain xtzOut (creditedPool this xtzPool) tokenPool d
         feePercent burnPercent"
  by (simp add: tokenToXtzTokenInput_def creditedPool_def)

lemma dividedBy_pos_neg:
  assumes "0 < n" "c < 0" "0 \<le> m"
  shows "\<not> gtZero (dividedBy (Fin n) (times_bn (Fin c) (Fin m)))"
proof (cases "m = 0")
  case True
  then show ?thesis
    using assms
    by (simp add: times_bn_Fin dividedBy_def zero_of_sign_def infinity_of_sign_def)
next
  case False
  then have "0 < m" using assms by simp
  then have neg: "c * m < 0" using assms by (simp add: mult_neg_pos)
  then have "n / (c * m) \<le> 0" using assms by (simp add: divide_nonneg_neg less_imp_le)
  then have "round_half_up DECIMAL_PLACES (n / (c * m)) \<le> 0"
    by (rule round_half_up_nonpos)
  then show ?thesis
    using neg assms
    by (auto simp add: times_bn_Fin dividedBy_Fin finite_of_sign_def zero_of_sign_def)
qed

lemma xtzToTokenXtzInput_exceeding_plain:
  assumes "0 < tokenOut" "0 < X" "0 < tokenPool" "tokenPool < tokenOut"
    and "0 \<le> feePercent" "feePercent \<le> 100" "0 \<le> burnPercent" "burnPercent \<le> 100"
  shows "xtzToTokenXtzInput plain (Fin tokenOut) (Fin X) (Fin tokenPool) d
           feePercent burnPercent = None"
proof -
  define m where "m = multiplier feePercent * multiplier burnPercent"
  have m: "0 \<le> m"
    using multiplier_bounds(1)[OF assms(5,6)] multiplier_bounds(1)[OF assms(7,8)]
    by (simp add: m_def)
  then have mr: "(0::rat) \<le> of_int m" by simp
  have N: "0 < X * tokenOut * 1000000" using assms(1,2) by simp
  have c: "tokenPool - tokenOut < 0" using assms(4) by simp
  have zero: "xtzToTokenXtzInput plain (Fin tokenOut) (Fin X) (Fin tokenPool) 0
           feePercent burnPercent = None"
    using dividedBy_pos_neg[OF N c mr] assms(1-3) mr
    by (simp add: xtzToTokenXtzInput_def Let_def BigNumber_of_int_def m_def[symmetric]
        Math_pow10_def times_bn_Fin_nonneg less_imp_le)
  consider "d < 0" | "0 \<le> d" "d \<le> 308" | "308 < d" by linarith
  then show ?thesis
  proof cases
    case 1
    then show ?thesis
      by (simp add: xtzToTokenXtzInput_def Let_def BigNumber_of_int_def)
  next
    case 2
    then show ?thesis
      using zero xtzToTokenXtzInput_decimals[OF 2] by simp
  next
    case 3
    have "\<not> gtZero (dividedBy
             (times_bn (times_bn (times_bn (Fin X) (Fin tokenOut)) (Fin 1000000)) PInf)
             (times_bn (Fin (tokenPool - tokenOut)) (times_bn (Fin (of_int m)) PInf)))"
      using assms(1,2,4) mr
      by (auto simp add: times_bn_Fin times_bn_def dividedBy_def infinity_of_sign_def
          zero_of_sign_def finite_of_sign_def)
    then show ?thesis
      using 3
      by (simp add: xtzToTokenXtzInput_def Let_def BigNumber_of_int_def m_def[symmetric]
          Math_pow10_overflow)
  qed
qed

lemma tokenToXtzTokenInput_exceeding_plain:
  assumes "0 < xtzOut" "0 < X" "0 < tokenPool"
    and "X * 1000 < xtzOut * of_int (multiplier burnPercent)"
    and "0 \<le> feePercent" "feePercent < 100"
  shows "tokenToXtzTokenInput plain (Fin xtzOut) (Fin X) (Fin tokenPool) d
           feePercent burnPercent = None"
proof -
  define f where "f = multiplier feePercent"
  define b where "b = multiplier burnPercent"
  have f: "0 < f" using multiplier_pos[OF assms(6)] by (simp add: f_def)
  then have fr: "(0::rat) < of_int f" by simp
  have lt: "X * 1000 < xtzOut * of_int b" using assms(4) by (simp add: b_def)
  have bpos: "(0::rat) < of_int b"
  proof (rule ccontr)
    assume "\<not> (0::rat) < of_int b"
    then have "xtzOut * of_int b \<le> 0" using assms(1) by (simp add: mult_nonneg_nonpos not_less)
    moreover have "0 < X * 1000" using assms(2) by simp
    ultimately show False using lt by linarith
  qed
  have N: "0 < tokenPool * xtzOut * 1000000" using assms(1,3) by simp
  have "of_int f * (X * 1000) < of_int f * (xtzOut * of_int b)"
    using lt fr by (simp only: mult_less_cancel_left_pos)
  then have c: "X * (of_int f * 1000) - xtzOut * (of_int f * of_int b) < 0"
    by (simp add: algebra_simps)
  have cm: "minus_bn (times_bn (Fin X) (Fin (of_int f * 1000)))
                     (times_bn (Fin xtzOut) (Fin (of_int f * of_int b)))
            = Fin (X * (of_int f * 1000) - xtzOut * (of_int f * of_int b))"
    using assms(1,2) fr bpos by (simp add: times_bn_Fin_nonneg less_imp_le)
  have one: "(0::rat) \<le> 1" by simp
  have zero: "tokenToXtzTokenInput plain (Fin xtzOut) (Fin X) (Fin tokenPool) 0
           feePercent burnPercent = None"
    using dividedBy_pos_neg[OF N c one] assms(1-3) cm
    by (simp add: tokenToXtzTokenInput_def Let_def BigNumber_of_int_def f_def[symmetric]
        b_def[symmetric] Math_pow10_def times_bn_Fin_nonneg less_imp_le)
  consider "d < 0" | "0 \<le> d" "d \<le> 308" | "308 < d" by linarith
  then show ?thesis
  proof cases
    case 1
    then show ?thesis
      by (simp add: tokenToXtzTokenInput_def Let_def BigNumber_of_int_def)
  next
    case 2
    then show ?thesis
      using zero tokenToXtzTokenInput_decimals[OF 2] by simp
  next
    case 3
    have "\<not> gtZero (dividedBy
             (times_bn (times_bn (times_bn (Fin tokenPool) (Fin xtzOut)) (Fin 1000000)) PInf)
             (times_bn (Fin (X * (of_int f * 1000) - xtzOut * (of_int f * of_int b))) PInf))"
      using c assms(1,3)
      by (auto simp add: times_bn_Fin times_bn_def dividedBy_def infinity_of_sign_def
          zero_of_sign_def finite_of_sign_def)
    then show ?thesis
      using 3 cm
      by (simp add: tokenToXtzTokenInput_def Let_def BigNumber_of_int_def f_def[symmetric]
          b_def[symmetric] Math_pow10_overflow)
  qed
qed

lemma xtzToTokenXtzInput_exceeding:
  assumes "0 < tokenOut" "0 < xtzPool" "0 < tokenPool" "tokenPool < tokenOut"
    and "0 \<le> feePercent" "feePercent \<le> 100" "0 \<le> burnPercent" "burnPercent \<le> 100"
  shows "xtzToTokenXtzInput this (Fin tokenOut) (Fin xtzPool) (Fin tokenPool) d
           feePercent burnPercent = None"
proof -
  have X: "0 < (if isLbContract this then xtzPool + 2500000 else xtzPool)"
    using assms(2) by simp
  show ?thesis
    using xtzToTokenXtzInput_exceeding_plain[OF assms(1) X assms(3-8)]
    by (simp only: xtzToTokenXtzInput_credited[of this] creditedPool_Fin)
qed

lemma tokenToXtzTokenInput_exceeding:
  assumes "0 < xtzOut" "0 < xtzPool" "0 < tokenPool"
    and "(if isLbContract this then xtzPool + 2500000 else xtzPool) * 1000
           < xtzOut * of_int (multiplier burnPercent)"
    and "0 \<le> feePercent" "feePercent < 100"
  shows "tokenToXtzTokenInput this (Fin xtzOut) (Fin xtzPool) (Fin tokenPool) d
           feePercent burnPercent = None"
proof -
  have X: "0 < (if isLbContract this then xtzPool + 2500000 else xtzPool)"
    using assms(2) by simp
  show ?thesis
    using tokenToXtzTokenInput_exceeding_plain[OF assms(1) X assms(3-6)]
    by (simp only: tokenToXtzTokenInput_credited[of this] creditedPool_Fin)
qed

text \<open>
  C6.  The claim: the inverse quotes return \<^verbatim>\<open>null\<close> whenever the computed result is
  not strictly positive, in particular for every requested output greater than or equal to
  the counter pool.  As amended, for a positive output, positive pools, a fee from 0 to
  below 100 and a burn from 0 to 100, with any decimals: a result that is returned is
  strictly positive; \<^verbatim>\<open>xtzToTokenXtzInput\<close> returns \<^verbatim>\<open>null\<close> for every output
  strictly greater than the token pool; \<^verbatim>\<open>tokenToXtzTokenInput\<close> returns \<^verbatim>\<open>null\<close>
  when \<open>xtzOut * burn\<close> is strictly greater than \<open>1000\<close> times the credited XTZ pool,
  where \<open>burn = 1000 - floor(burnPercent * 10)\<close> is the factor its denominator puts on
  \<open>xtzOut\<close>.
\<close>

theorem inverse_quotes_null_unless_positive:
  assumes "0 < amountOut" "0 < xtzPool" "0 < tokenPool"
    and "0 \<le> feePercent" "feePercent < 100" "0 \<le> burnPercent" "burnPercent \<le> 100"
  shows "(\<forall>r. xtzToTokenXtzInput this (Fin amountOut) (Fin xtzPool) (Fin tokenPool) d
                feePercent burnPercent = Some r \<longrightarrow> gtZero r)
       \<and> (\<forall>r. tokenToXtzTokenInput this (Fin amountOut) (Fin xtzPool) (Fin tokenPool) d
                feePercent burnPercent = Some r \<longrightarrow> gtZero r)
       \<and> (tokenPool < amountOut \<longrightarrow>
            xtzToTokenXtzInput this (Fin amountOut) (Fin xtzPool) (Fin tokenPool) d
              feePercent burnPercent = None)
       \<and> (valueOf (creditedPool this (Fin xtzPool)) * 1000
             < amountOut * of_int (multiplier burnPercent) \<longrightarrow>
            tokenToXtzTokenInput this (Fin amountOut) (Fin xtzPool) (Fin tokenPool) d
              feePercent burnPercent = None)"
  using xtzToTokenXtzInput_Some_gtZero tokenToXtzTokenInput_Some_gtZero
    xtzToTokenXtzInput_exceeding[OF assms(1-3) _ assms(4) less_imp_le[OF assms(5)] assms(6,7)]
    tokenToXtzTokenInput_exceeding[OF assms(1-3) _ assms(4,5)]
  by auto

theorem inverse_quotes_null_unless_positive_witness:
  "xtzToTokenXtzInput plain (Fin 3) (Fin 1) (Fin 2) 0 0 0 = None
   \<and> tokenToXtzTokenInput plain (Fin 3) (Fin 1) (Fin 2) 0 0 0 = None"
proof -
  have h: "(0::rat) < 3" "(0::rat) < 1" "(0::rat) < 2" "(0::rat) \<le> 0" "(0::rat) < 100"
    "(0::rat) \<le> 0" "(0::rat) \<le> 100"
    by simp_all
  have m: "multiplier 0 = 1000" by (simp add: multiplier_def)
  show ?thesis
    using inverse_quotes_null_unless_positive[OF h, of plain 0] m by simp
qed

text \<open>
  With a burn of 0.1 percent a request for the whole XTZ pool, 1000 out of 1000, has the
  positive denominator \<open>999 * (1000 * 1000 - 999 * 1000)\<close> and is answered; a request for
  the whole token pool divides by zero, which \<^verbatim>\<open>dividedBy\<close> answers with
  \<^verbatim>\<open>Infinity\<close>, a value greater than zero.
\<close>

theorem inverse_quote_of_whole_pool_not_null:
  "tokenToXtzTokenInput plain (Fin 1000) (Fin 1000) (Fin 1000) 0 (1 / 10) (1 / 10)
     = Some (Fin (1001001001001001001001001 / 1000000000000000000))
   \<and> xtzToTokenXtzInput plain (Fin 1) (Fin 2) (Fin 1) 0 0 0 = Some PInf"
  by code_simp

section \<open>Round trips\<close>

lemma xtzToTokenTokenOutput_credited:
  "xtzToTokenTokenOutput this xtzIn xtzPool tokenPool feePercent burnPercent
     = xtzToTokenTokenOutput plain xtzIn (creditedPool this xtzPool) tokenPool
         feePercent burnPercent"
  by (simp add: xtzToTokenTokenOutput_def creditedPool_def)

text \<open>
  Where \<^verbatim>\<open>dividedBy\<close> does not round the forward quotient, the inverse quote returns
  the input itself: in exact arithmetic it inverts the forward quote, from XTZ to token
  always and from token to XTZ when nothing is burnt.
\<close>

lemma xtzToToken_round_trip_plain:
  assumes "0 < i" "representable i" "0 < X" "0 < T"
    and "0 \<le> feePercent" "feePercent < 100" "0 \<le> burnPercent" "burnPercent < 100"
    and "0 \<le> d" "d \<le> 308"
    and "representable (spec_forward_quote i T X (multiplier feePercent * multiplier burnPercent))"
  shows "xtzToTokenTokenOutput plain (Fin i) (Fin X) (Fin T) (Some feePercent) (Some burnPercent)
           = Some (Fin (spec_forward_quote i T X (multiplier feePercent * multiplier burnPercent)))"
    and "xtzToTokenXtzInput plain
           (Fin (spec_forward_quote i T X (multiplier feePercent * multiplier burnPercent)))
           (Fin X) (Fin T) d feePercent burnPercent = Some (Fin i)"
proof -
  define m :: rat where "m = of_int (multiplier feePercent) * of_int (multiplier burnPercent)"
  define q where "q = spec_forward_quote i T X (multiplier feePercent * multiplier burnPercent)"
  have mi: "0 < multiplier feePercent * multiplier burnPercent"
    using multiplier_pos[OF assms(6)] multiplier_pos[OF assms(8)] by simp
  then have "(0::rat) < of_int (multiplier feePercent * multiplier burnPercent)"
    by (simp only: of_int_0_less_iff)
  then have m: "0 < m" by (simp add: m_def)
  define D where "D = X * 1000000 + i * m"
  have D: "0 < D" using assms(1,3) m by (simp add: D_def add_pos_pos)
  have q: "q = i * T * m / D"
    by (simp add: q_def spec_forward_quote_def m_def D_def)
  have qpos: "0 < q" using assms(1,4) m D by (simp add: q)
  have diff: "T - q = T * X * 1000000 / D"
    using D by (simp add: q D_def field_simps)
  have tq: "0 < T - q" using assms(3,4) D by (simp add: diff)
  have dpos: "0 < (T - q) * m" using tq m by simp
  have "X * q * 1000000 / (T * X * 1000000 / D * m) = i"
    using D m assms(3,4) by (simp add: q field_simps)
  then have quot: "X * q * 1000000 / ((T - q) * m) = i"
    by (simp only: diff)
  show fwd: "xtzToTokenTokenOutput plain (Fin i) (Fin X) (Fin T) (Some feePercent) (Some burnPercent)
           = Some (Fin (spec_forward_quote i T X (multiplier feePercent * multiplier burnPercent)))"
    using xtzToTokenTokenOutput_Fin[OF assms(1,3,4,5) less_imp_le[OF assms(6)] assms(7)
        less_imp_le[OF assms(8)]] assms(11)
    by (simp add: representable_def)
  have npos: "0 \<le> X * q * 1000000" using assms(3) qpos by simp
  have "xtzToTokenXtzInput plain (Fin q) (Fin X) (Fin T) 0 feePercent burnPercent = Some (Fin i)"
    using assms(1,2,3,4) qpos m tq dpos dividedBy_Fin_pos[OF npos dpos] quot
    by (simp add: xtzToTokenXtzInput_def Let_def BigNumber_of_int_def m_def[symmetric]
        Math_pow10_def times_bn_Fin_nonneg less_imp_le representable_def)
  then show "xtzToTokenXtzInput plain
           (Fin (spec_forward_quote i T X (multiplier feePercent * multiplier burnPercent)))
           (Fin X) (Fin T) d feePercent burnPercent = Some (Fin i)"
    using xtzToTokenXtzInput_decimals[OF assms(9,10)] by (simp add: q_def)
qed

lemma tokenToXtz_round_trip_plain:
  assumes "0 < i" "representable i" "0 < X" "0 < T"
    and "0 \<le> feePercent" "feePercent < 100"
    and "0 \<le> d" "d \<le> 308"
    and "representable (spec_tokenToXtz_quote i X T (multiplier feePercent) (multiplier 0))"
  shows "tokenToXtzXtzOutput plain (Fin i) (Fin X) (Fin T) feePercent 0
           = Some (Fin (spec_tokenToXtz_quote i X T (multiplier feePercent) (multiplier 0)))"
    and "tokenToXtzTokenInput plain
           (Fin (spec_tokenToXtz_quote i X T (multiplier feePercent) (multiplier 0)))
           (Fin X) (Fin T) d feePercent 0 = Some (Fin i)"
proof -
  define f :: rat where "f = of_int (multiplier feePercent)"
  define q where "q = spec_tokenToXtz_quote i X T (multiplier feePercent) (multiplier 0)"
  have b: "multiplier 0 = 1000" by (simp add: multiplier_def)
  have f: "0 < f" using multiplier_pos[OF assms(6)] by (simp add: f_def)
  define D where "D = T * 1000000 + i * f * 1000"
  have D: "0 < D" using assms(1,4) f by (simp add: D_def add_pos_pos)
  have q: "q = i * X * f * 1000 / D"
    by (simp add: q_def spec_tokenToXtz_quote_def f_def D_def b)
  have qpos: "0 < q" using assms(1,3) f D by (simp add: q)
  have diff: "X * (f * 1000) - q * (f * 1000) = f * 1000 * (X * T * 1000000 / D)"
    using D by (simp add: q D_def field_simps)
  have dpos: "0 < X * (f * 1000) - q * (f * 1000)"
    using assms(3,4) f D by (simp add: diff)
  have "T * q * 1000000 / (f * 1000 * (X * T * 1000000 / D)) = i"
    using D f assms(3,4) by (simp add: q field_simps)
  then have quot: "T * q * 1000000 / (X * (f * 1000) - q * (f * 1000)) = i"
    by (simp only: diff)
  have z: "(0::rat) \<le> 0" "(0::rat) \<le> 100" by simp_all
  show "tokenToXtzXtzOutput plain (Fin i) (Fin X) (Fin T) feePercent 0
           = Some (Fin (spec_tokenToXtz_quote i X T (multiplier feePercent) (multiplier 0)))"
    using tokenToXtzXtzOutput_Fin[OF assms(1,3,4,5) less_imp_le[OF assms(6)] z] assms(9)
    by (simp add: representable_def)
  have npos: "0 \<le> T * q * 1000000" using assms(4) qpos by simp
  have "tokenToXtzTokenInput plain (Fin q) (Fin X) (Fin T) 0 feePercent 0 = Some (Fin i)"
    using assms(1,2,3,4) qpos f dpos dividedBy_Fin_pos[OF npos dpos] quot
    by (simp add: tokenToXtzTokenInput_def Let_def BigNumber_of_int_def f_def[symmetric] b
        Math_pow10_def times_bn_Fin_nonneg less_imp_le representable_def)
  then show "tokenToXtzTokenInput plain
           (Fin (spec_tokenToXtz_quote i X T (multiplier feePercent) (multiplier 0)))
           (Fin X) (Fin T) d feePercent 0 = Some (Fin i)"
    using tokenToXtzTokenInput_decimals[OF assms(7,8)] by (simp add: q_def)
qed

text \<open>
  In general both quotes round.  With \<open>x\<close> within \<open>e\<close> of the exact forward quotient
  \<open>i * P / (c + i)\<close>, the exact inverse quotient \<open>c * x / (P - x)\<close> is defined and loses
  at most \<open>e * (c + i)^2 / (c * P)\<close> on \<open>i\<close>.
\<close>

lemma round_trip_bound:
  fixes c P i x e :: rat
  assumes c: "0 < c" and P: "0 < P" and i: "0 < i" and e: "0 \<le> e"
    and near: "\<bar>x - i * P / (c + i)\<bar> \<le> e"
    and tol: "e * (1 + (c + i)\<^sup>2 / (c * P)) < i"
  shows "0 < x" and "x < P" and "i - e * (c + i)\<^sup>2 / (c * P) \<le> c * x / (P - x)"
proof -
  define q where "q = i * P / (c + i)"
  define K where "K = e * (c + i)\<^sup>2 / (c * P)"
  have ci: "0 < c + i" using c i by simp
  have cP: "0 < c * P" using c P by simp
  have K0: "0 \<le> K" using e ci cP by (simp add: K_def)
  have eK: "e + K < i" using tol by (simp add: K_def algebra_simps)
  have Ki: "K < i" using eK e by linarith
  have q0: "0 < q" using i P ci by (simp add: q_def)
  have Pq: "P - q = c * P / (c + i)" using ci by (simp add: q_def field_simps)
  have cP0: "c * P \<noteq> 0" using c P by simp
  have cancel: "a / y * y = a" if "y \<noteq> 0" for a y :: rat
    using that by simp
  have "K * (c * P) = e * (c + i)\<^sup>2"
    unfolding K_def by (rule cancel[OF cP0])
  then have "K * (P - q) = e * (c + i)\<^sup>2 / (c + i)" by (simp add: Pq)
  then have KPq: "K * (P - q) = e * (c + i)"
    using ci by (simp add: power2_eq_square)
  have cq: "c * q = i * (P - q)" using ci by (simp add: Pq q_def field_simps)
  \<comment> \<open>the rounding error is smaller than the quote and than what is left of the pool\<close>
  have "e * (c + i) = K * (P - q)" using KPq by simp
  also have "\<dots> < i * (P - q)"
  proof -
    have "0 < P - q" unfolding Pq using cP ci by simp
    then show ?thesis using Ki by (intro mult_strict_right_mono) simp_all
  qed
  finally have e1: "e * (c + i) < c * q" using cq by simp
  have "c * q < (c + i) * q" using q0 i by (simp add: algebra_simps)
  then have "e * (c + i) < q * (c + i)" using e1 by (simp add: mult.commute)
  then have eq: "e < q" using ci by (simp only: mult_less_cancel_right_pos)
  have Pq0: "0 < P - q" unfolding Pq using cP ci by simp
  have "i * (P - q) < (c + i) * (P - q)"
    using c Pq0 by (intro mult_strict_right_mono) simp_all
  then have "e * (c + i) < (P - q) * (c + i)"
    using e1 cq by (simp add: mult.commute)
  then have ePq: "e < P - q" using ci by (simp only: mult_less_cancel_right_pos)
  have lo: "q - e \<le> x" and hi: "x \<le> q + e"
    using near by (simp_all add: q_def abs_le_iff)
  show x0: "0 < x" using lo eq by linarith
  show xP: "x < P" using hi ePq by linarith
  have den: "0 < P - x" using xP by simp
  have "(i - K) * (P - x) = (i - K) * P - (i - K) * x" by (simp add: algebra_simps)
  have cik: "0 < c + i - K" using Ki c by linarith
  have "(q - e) * (c + i - K) \<le> x * (c + i - K)"
    using lo cik by (intro mult_right_mono) simp_all
  moreover have "(q - e) * (c + i - K) = i * P - K * P + e * K"
  proof -
    have "q * (c + i) = i * P" using ci by (simp add: q_def)
    then have "(q - e) * (c + i - K) = i * P - q * K - e * (c + i) + e * K"
      by (simp add: algebra_simps)
    also have "\<dots> = i * P - q * K - K * (P - q) + e * K" using KPq by simp
    also have "\<dots> = i * P - K * P + e * K" by (simp add: algebra_simps)
    finally show ?thesis .
  qed
  moreover have "0 \<le> e * K" using e K0 by simp
  ultimately have "(i - K) * P \<le> x * (c + i - K)" by (simp add: algebra_simps)
  then have "(i - K) * (P - x) \<le> c * x" by (simp add: algebra_simps)
  then have "i - K \<le> c * x / (P - x)" using den by (simp add: pos_le_divide_eq)
  then show "i - e * (c + i)\<^sup>2 / (c * P) \<le> c * x / (P - x)" by (simp add: K_def)
qed

lemma round_half_up_lower: "q - 1 / (2 * 10 ^ DECIMAL_PLACES) \<le> round_half_up DECIMAL_PLACES q"
  using round_half_up_error[of DECIMAL_PLACES q] by (simp add: abs_le_iff)

lemma inverse_shape_bound:
  fixes c P i x :: rat
  assumes c: "0 < c" and P: "0 < P" and i: "0 < i"
    and x: "x = round_half_up DECIMAL_PLACES (i * P / (c + i))"
    and tol: "round_trip_tolerance c P i < i"
  shows "0 < x" and "x < P"
    and "0 < round_half_up DECIMAL_PLACES (c * x / (P - x))"
    and "i - round_trip_tolerance c P i \<le> round_half_up DECIMAL_PLACES (c * x / (P - x))"
proof -
  define e :: rat where "e = 1 / (2 * 10 ^ DECIMAL_PLACES)"
  have e: "0 \<le> e" by (simp add: e_def)
  have near: "\<bar>x - i * P / (c + i)\<bar> \<le> e"
    unfolding x e_def by (rule round_half_up_error)
  have t: "round_trip_tolerance c P i = e * (1 + (c + i)\<^sup>2 / (c * P))"
    by (simp add: round_trip_tolerance_def e_def)
  have tol': "e * (1 + (c + i)\<^sup>2 / (c * P)) < i" using tol by (simp only: t)
  show "0 < x" by (rule round_trip_bound(1)[OF c P i e near tol'])
  show "x < P" by (rule round_trip_bound(2)[OF c P i e near tol'])
  have b: "i - e * (c + i)\<^sup>2 / (c * P) \<le> c * x / (P - x)"
    by (rule round_trip_bound(3)[OF c P i e near tol'])
  have "c * x / (P - x) - e \<le> round_half_up DECIMAL_PLACES (c * x / (P - x))"
    unfolding e_def by (rule round_half_up_lower)
  then have "i - e * (c + i)\<^sup>2 / (c * P) - e \<le> round_half_up DECIMAL_PLACES (c * x / (P - x))"
    using b by linarith
  moreover have "i - e * (c + i)\<^sup>2 / (c * P) - e = i - round_trip_tolerance c P i"
    by (simp add: t algebra_simps)
  ultimately show r: "i - round_trip_tolerance c P i \<le> round_half_up DECIMAL_PLACES (c * x / (P - x))"
    by simp
  then show "0 < round_half_up DECIMAL_PLACES (c * x / (P - x))"
    using tol by linarith
qed

lemma xtzToToken_round_trip_bound_plain:
  assumes "0 < i" "0 < X" "0 < T"
    and "0 \<le> feePercent" "feePercent < 100" "0 \<le> burnPercent" "burnPercent < 100"
    and "0 \<le> d" "d \<le> 308"
    and tol: "round_trip_tolerance
                (X * 1000000 / of_int (multiplier feePercent * multiplier burnPercent)) T i < i"
  shows "\<exists>x r. xtzToTokenTokenOutput plain (Fin i) (Fin X) (Fin T)
                  (Some feePercent) (Some burnPercent) = Some (Fin x)
               \<and> xtzToTokenXtzInput plain (Fin x) (Fin X) (Fin T) d feePercent burnPercent
                  = Some (Fin r)
               \<and> i - round_trip_tolerance
                   (X * 1000000 / of_int (multiplier feePercent * multiplier burnPercent)) T i
                 \<le> r"
proof -
  define m :: rat where "m = of_int (multiplier feePercent) * of_int (multiplier burnPercent)"
  have "0 < multiplier feePercent * multiplier burnPercent"
    using multiplier_pos[OF assms(5)] multiplier_pos[OF assms(7)] by simp
  then have "(0::rat) < of_int (multiplier feePercent * multiplier burnPercent)"
    by (simp only: of_int_0_less_iff)
  then have m: "0 < m" by (simp add: m_def)
  define c where "c = X * 1000000 / m"
  have c: "0 < c" using assms(2) m by (simp add: c_def)
  have cm: "X * 1000000 / of_int (multiplier feePercent * multiplier burnPercent) = c"
    by (simp add: c_def m_def)
  define x where "x = round_half_up DECIMAL_PLACES (i * T / (c + i))"
  have q: "spec_forward_quote i T X (multiplier feePercent * multiplier burnPercent)
             = i * T / (c + i)"
  proof -
    have "spec_forward_quote i T X (multiplier feePercent * multiplier burnPercent)
            = i * T * m / (X * 1000000 + i * m)"
      by (simp add: spec_forward_quote_def m_def)
    also have "\<dots> = i * T / (c + i)"
      using m assms(1,2) by (simp add: c_def field_simps)
    finally show ?thesis .
  qed
  have fwd: "xtzToTokenTokenOutput plain (Fin i) (Fin X) (Fin T)
               (Some feePercent) (Some burnPercent) = Some (Fin x)"
    using xtzToTokenTokenOutput_Fin[OF assms(1,2,3,4) less_imp_le[OF assms(5)] assms(6)
        less_imp_le[OF assms(7)]]
    by (simp add: q x_def)
  have tol': "round_trip_tolerance c T i < i" using tol by (simp only: cm)
  note sb = inverse_shape_bound[OF c assms(3) assms(1) x_def tol']
  have tx: "0 < T - x" using sb(2) by simp
  have dpos: "0 < (T - x) * m" using tx m by simp
  have npos: "0 \<le> X * x * 1000000" using assms(2) sb(1) by simp
  have quot: "X * x * 1000000 / ((T - x) * m) = c * x / (T - x)"
    using m tx by (simp add: c_def field_simps)
  have "xtzToTokenXtzInput plain (Fin x) (Fin X) (Fin T) 0 feePercent burnPercent
          = Some (Fin (round_half_up DECIMAL_PLACES (c * x / (T - x))))"
    using assms(2,3) sb(1,3) m tx dividedBy_Fin_pos[OF npos dpos] quot
    by (simp add: xtzToTokenXtzInput_def Let_def BigNumber_of_int_def m_def[symmetric]
        Math_pow10_def times_bn_Fin_nonneg less_imp_le)
  then have inv: "xtzToTokenXtzInput plain (Fin x) (Fin X) (Fin T) d feePercent burnPercent
          = Some (Fin (round_half_up DECIMAL_PLACES (c * x / (T - x))))"
    using xtzToTokenXtzInput_decimals[OF assms(8,9)] by simp
  show ?thesis
    unfolding cm using fwd inv sb(4) by simp
qed

lemma tokenToXtz_round_trip_bound_plain:
  assumes "0 < i" "0 < X" "0 < T"
    and "0 \<le> feePercent" "feePercent < 100"
    and "multiplier burnPercent = 1000"
    and "0 \<le> d" "d \<le> 308"
    and tol: "round_trip_tolerance (T * 1000 / of_int (multiplier feePercent)) X i < i"
  shows "\<exists>x r. tokenToXtzXtzOutput plain (Fin i) (Fin X) (Fin T) feePercent burnPercent
                  = Some (Fin x)
               \<and> tokenToXtzTokenInput plain (Fin x) (Fin X) (Fin T) d feePercent burnPercent
                  = Some (Fin r)
               \<and> i - round_trip_tolerance (T * 1000 / of_int (multiplier feePercent)) X i \<le> r"
proof -
  define f :: rat where "f = of_int (multiplier feePercent)"
  have f: "0 < f" using multiplier_pos[OF assms(5)] by (simp add: f_def)
  define c where "c = T * 1000 / f"
  have c: "0 < c" using assms(3) f by (simp add: c_def)
  have cm: "T * 1000 / of_int (multiplier feePercent) = c"
    by (simp add: c_def f_def)
  define x where "x = round_half_up DECIMAL_PLACES (i * X / (c + i))"
  have den: "0 < T * 1000000 + i * f * 1000" using assms(1,3) f by (simp add: add_pos_pos)
  have n: "times_bn (times_bn (Fin i) (Fin X)) (Fin (f * 1000))
             = Fin (i * X * (f * 1000))"
    using assms(1,2) f by (simp add: times_bn_Fin_nonneg less_imp_le)
  have dd: "plus_bn (times_bn (Fin T) (Fin 1000000)) (times_bn (Fin i) (Fin (f * 1000)))
             = Fin (T * 1000000 + i * (f * 1000))"
    using assms(1,3) f by (simp add: times_bn_Fin_nonneg less_imp_le)
  have dpos0: "0 < T * 1000000 + i * (f * 1000)" using den by (simp add: mult.assoc)
  have npos0: "0 \<le> i * X * (f * 1000)" using assms(1,2) f by simp
  have q2: "i * X * (f * 1000) / (T * 1000000 + i * (f * 1000)) = i * X / (c + i)"
    using f assms(1,3) dpos0 by (simp add: c_def field_simps)
  have fwd: "tokenToXtzXtzOutput plain (Fin i) (Fin X) (Fin T) feePercent burnPercent
               = Some (Fin x)"
    using assms(1-3) n dd dividedBy_Fin_pos[OF npos0 dpos0] q2
    by (simp add: tokenToXtzXtzOutput_def Let_def BigNumber_of_int_def f_def[symmetric]
        assms(6) x_def)
  have tol': "round_trip_tolerance c X i < i" using tol by (simp only: cm)
  note sb = inverse_shape_bound[OF c assms(2) assms(1) x_def tol']
  have tx: "0 < X - x" using sb(2) by simp
  have dpos: "0 < X * (f * 1000) - x * (f * 1000)"
    using tx f by (simp add: algebra_simps)
  have npos: "0 \<le> T * x * 1000000" using assms(3) sb(1) by simp
  have "T * x * 1000000 / ((X - x) * (f * 1000)) = c * x / (X - x)"
    using f tx by (simp add: c_def field_simps)
  then have quot: "T * x * 1000000 / (X * (f * 1000) - x * (f * 1000)) = c * x / (X - x)"
    by (simp add: algebra_simps)
  have "tokenToXtzTokenInput plain (Fin x) (Fin X) (Fin T) 0 feePercent burnPercent
          = Some (Fin (round_half_up DECIMAL_PLACES (c * x / (X - x))))"
    using assms(2,3) sb(1,3) f dpos dividedBy_Fin_pos[OF npos dpos] quot
    by (simp add: tokenToXtzTokenInput_def Let_def BigNumber_of_int_def f_def[symmetric]
        assms(6) Math_pow10_def times_bn_Fin_nonneg less_imp_le)
  then have inv: "tokenToXtzTokenInput plain (Fin x) (Fin X) (Fin T) d feePercent burnPercent
          = Some (Fin (round_half_up DECIMAL_PLACES (c * x / (X - x))))"
    using tokenToXtzTokenInput_decimals[OF assms(7,8)] by simp
  show ?thesis
    unfolding cm using fwd inv sb(4) by simp
qed

text \<open>
  C3.  The claim: when the forward quote on \<open>i\<close> yields \<open>o\<close>, the inverse quote on
  \<open>o\<close> with the same parameters returns a value greater than or equal to \<open>i\<close>.  As
  amended, for a positive \<open>i\<close>, positive pools, fee and burn from 0 to below 100 and
  decimals from 0 to 308, the inverse quote returns at least \<open>i\<close> less the tolerance
  \<open>(1 + (c + i)^2 / (c * counterPool)) * 5 * 10^-21\<close>, whenever that tolerance is below
  \<open>i\<close>: \<^verbatim>\<open>xtzToTokenXtzInput\<close> on the output of \<^verbatim>\<open>xtzToTokenTokenOutput\<close>, with either
  value of the flag, where \<open>c\<close> is the credited XTZ pool times \<open>10^6\<close> over the fee and
  burn multiplier and the counter pool is the token pool; and, with the flag unset and a
  burn multiplier of 1000, \<^verbatim>\<open>tokenToXtzTokenInput\<close> on the output of
  \<^verbatim>\<open>tokenToXtzXtzOutput\<close>, where \<open>c\<close> is the token pool times 1000 over the fee
  multiplier and the counter pool is the XTZ pool.  Both quotes of the round trip return a
  finite value.
\<close>

theorem round_trip_within_tolerance:
  assumes "0 < amountIn" "0 < xtzPool" "0 < tokenPool"
    and "0 \<le> feePercent" "feePercent < 100" "0 \<le> burnPercent" "burnPercent < 100"
    and "0 \<le> d" "d \<le> 308"
  shows "(round_trip_tolerance
            (valueOf (creditedPool this (Fin xtzPool)) * 1000000
               / of_int (multiplier feePercent * multiplier burnPercent))
            tokenPool amountIn < amountIn \<longrightarrow>
          (\<exists>out inp.
             xtzToTokenTokenOutput this (Fin amountIn) (Fin xtzPool) (Fin tokenPool)
               (Some feePercent) (Some burnPercent) = Some (Fin out)
             \<and> xtzToTokenXtzInput this (Fin out) (Fin xtzPool) (Fin tokenPool) d
                 feePercent burnPercent = Some (Fin inp)
             \<and> amountIn
                 - round_trip_tolerance
                     (valueOf (creditedPool this (Fin xtzPool)) * 1000000
                        / of_int (multiplier feePercent * multiplier burnPercent))
                     tokenPool amountIn
               \<le> inp))
       \<and> (multiplier burnPercent = 1000
          \<and> round_trip_tolerance (tokenPool * 1000 / of_int (multiplier feePercent))
              xtzPool amountIn < amountIn \<longrightarrow>
          (\<exists>out inp.
             tokenToXtzXtzOutput plain (Fin amountIn) (Fin xtzPool) (Fin tokenPool)
               feePercent burnPercent = Some (Fin out)
             \<and> tokenToXtzTokenInput plain (Fin out) (Fin xtzPool) (Fin tokenPool) d
                 feePercent burnPercent = Some (Fin inp)
             \<and> amountIn
                 - round_trip_tolerance (tokenPool * 1000 / of_int (multiplier feePercent))
                     xtzPool amountIn
               \<le> inp))"
proof -
  define X where "X = (if isLbContract this then xtzPool + 2500000 else xtzPool)"
  have X: "0 < X" using assms(2) by (simp add: X_def)
  have c: "creditedPool this (Fin xtzPool) = Fin X" by (simp add: X_def)
  have a: "round_trip_tolerance
             (X * 1000000 / of_int (multiplier feePercent * multiplier burnPercent))
             tokenPool amountIn < amountIn \<Longrightarrow>
          (\<exists>out inp.
             xtzToTokenTokenOutput this (Fin amountIn) (Fin xtzPool) (Fin tokenPool)
               (Some feePercent) (Some burnPercent) = Some (Fin out)
             \<and> xtzToTokenXtzInput this (Fin out) (Fin xtzPool) (Fin tokenPool) d
                 feePercent burnPercent = Some (Fin inp)
             \<and> amountIn
                 - round_trip_tolerance
                     (X * 1000000 / of_int (multiplier feePercent * multiplier burnPercent))
                     tokenPool amountIn
               \<le> inp)"
    using xtzToToken_round_trip_bound_plain[OF assms(1) X assms(3-9)]
    by (simp only: xtzToTokenTokenOutput_credited[of this] xtzToTokenXtzInput_credited[of this] c)
  show ?thesis
    unfolding c valueOf.simps
    using a tokenToXtz_round_trip_bound_plain[OF assms(1-5) _ assms(8,9)]
    by blast
qed

theorem round_trip_within_tolerance_witness:
  "xtzToTokenTokenOutput liquidityBaking (Fin 1000000) (Fin 29757960047) (Fin 351953939)
     (Some (1 / 10)) (Some (1 / 10))
     = Some (Fin (590109500867588340542851 / 50000000000000000000))
   \<and> xtzToTokenXtzInput liquidityBaking (Fin (590109500867588340542851 / 50000000000000000000))
       (Fin 29757960047) (Fin 351953939) 8 (1 / 10) (1 / 10)
     = Some (Fin (49999999999999999999999993 / 50000000000000000000))
   \<and> 1000000
       - round_trip_tolerance
           (valueOf (creditedPool liquidityBaking (Fin 29757960047)) * 1000000
              / of_int (multiplier (1 / 10) * multiplier (1 / 10)))
           351953939 1000000
     \<le> (49999999999999999999999993 / 50000000000000000000 :: rat)
   \<and> tokenToXtzXtzOutput plain (Fin 1000) (Fin 29757960047) (Fin 351953939) (3 / 10) (1 / 20)
     = Some (Fin (8429683215711172750820577 / 100000000000000000000))
   \<and> tokenToXtzTokenInput plain (Fin (8429683215711172750820577 / 100000000000000000000))
       (Fin 29757960047) (Fin 351953939) 8 (3 / 10) (1 / 20)
     = Some (Fin 1000)
   \<and> 1000 - round_trip_tolerance (351953939 * 1000 / of_int (multiplier (3 / 10)))
              29757960047 1000
     \<le> (1000 :: rat)"
proof -
  have t1: "round_trip_tolerance
              (valueOf (creditedPool liquidityBaking (Fin 29757960047)) * 1000000
                 / of_int (multiplier (1 / 10) * multiplier (1 / 10)))
              351953939 1000000 < 1000000"
    by code_simp
  have f1: "xtzToTokenTokenOutput liquidityBaking (Fin 1000000) (Fin 29757960047)
              (Fin 351953939) (Some (1 / 10)) (Some (1 / 10))
            = Some (Fin (590109500867588340542851 / 50000000000000000000))"
    by code_simp
  have i1: "xtzToTokenXtzInput liquidityBaking
              (Fin (590109500867588340542851 / 50000000000000000000))
              (Fin 29757960047) (Fin 351953939) 8 (1 / 10) (1 / 10)
            = Some (Fin (49999999999999999999999993 / 50000000000000000000))"
    by code_simp
  have t2: "multiplier (1 / 20) = 1000
            \<and> round_trip_tolerance (351953939 * 1000 / of_int (multiplier (3 / 10)))
                29757960047 1000 < 1000"
    by code_simp
  have f2: "tokenToXtzXtzOutput plain (Fin 1000) (Fin 29757960047) (Fin 351953939)
              (3 / 10) (1 / 20)
            = Some (Fin (8429683215711172750820577 / 100000000000000000000))"
    by code_simp
  have i2: "tokenToXtzTokenInput plain
              (Fin (8429683215711172750820577 / 100000000000000000000))
              (Fin 29757960047) (Fin 351953939) 8 (3 / 10) (1 / 20)
            = Some (Fin 1000)"
    by code_simp
  have a: "\<exists>out inp.
             xtzToTokenTokenOutput liquidityBaking (Fin 1000000) (Fin 29757960047)
               (Fin 351953939) (Some (1 / 10)) (Some (1 / 10)) = Some (Fin out)
             \<and> xtzToTokenXtzInput liquidityBaking (Fin out) (Fin 29757960047)
                 (Fin 351953939) 8 (1 / 10) (1 / 10) = Some (Fin inp)
             \<and> 1000000
                 - round_trip_tolerance
                     (valueOf (creditedPool liquidityBaking (Fin 29757960047)) * 1000000
                        / of_int (multiplier (1 / 10) * multiplier (1 / 10)))
                     351953939 1000000
               \<le> inp"
    using round_trip_within_tolerance[of 1000000 29757960047 351953939 "1 / 10" "1 / 10" 8
        liquidityBaking] t1
    by simp
  have b: "\<exists>out inp.
             tokenToXtzXtzOutput plain (Fin 1000) (Fin 29757960047) (Fin 351953939)
               (3 / 10) (1 / 20) = Some (Fin out)
             \<and> tokenToXtzTokenInput plain (Fin out) (Fin 29757960047) (Fin 351953939) 8
                 (3 / 10) (1 / 20) = Some (Fin inp)
             \<and> 1000 - round_trip_tolerance (351953939 * 1000 / of_int (multiplier (3 / 10)))
                        29757960047 1000
               \<le> inp"
    using round_trip_within_tolerance[of 1000 29757960047 351953939 "3 / 10" "1 / 20" 8
        plain] t2
    by simp
  from a obtain out inp where
    o1: "xtzToTokenTokenOutput liquidityBaking (Fin 1000000) (Fin 29757960047)
       (Fin 351953939) (Some (1 / 10)) (Some (1 / 10)) = Some (Fin out)" and
    o2: "xtzToTokenXtzInput liquidityBaking (Fin out) (Fin 29757960047)
       (Fin 351953939) 8 (1 / 10) (1 / 10) = Some (Fin inp)" and
    o3: "1000000
       - round_trip_tolerance
           (valueOf (creditedPool liquidityBaking (Fin 29757960047)) * 1000000
              / of_int (multiplier (1 / 10) * multiplier (1 / 10)))
           351953939 1000000
     \<le> inp"
    by blast
  have "out = 590109500867588340542851 / 50000000000000000000"
    using o1 f1 by (metis option.inject BigNumber.inject)
  then have "inp = 49999999999999999999999993 / 50000000000000000000"
    using o2 i1 by (metis option.inject BigNumber.inject)
  then have a': "1000000
       - round_trip_tolerance
           (valueOf (creditedPool liquidityBaking (Fin 29757960047)) * 1000000
              / of_int (multiplier (1 / 10) * multiplier (1 / 10)))
           351953939 1000000
     \<le> (49999999999999999999999993 / 50000000000000000000 :: rat)"
    using o3 by (simp only:)
  from b obtain out' inp' where
    p1: "tokenToXtzXtzOutput plain (Fin 1000) (Fin 29757960047) (Fin 351953939)
       (3 / 10) (1 / 20) = Some (Fin out')" and
    p2: "tokenToXtzTokenInput plain (Fin out') (Fin 29757960047) (Fin 351953939) 8
       (3 / 10) (1 / 20) = Some (Fin inp')" and
    p3: "1000 - round_trip_tolerance (351953939 * 1000 / of_int (multiplier (3 / 10)))
              29757960047 1000
     \<le> inp'"
    by blast
  have "out' = 8429683215711172750820577 / 100000000000000000000"
    using p1 f2 by (metis option.inject BigNumber.inject)
  then have "inp' = 1000"
    using p2 i2 by (metis option.inject BigNumber.inject)
  then have b': "1000 - round_trip_tolerance (351953939 * 1000 / of_int (multiplier (3 / 10)))
              29757960047 1000
     \<le> (1000 :: rat)"
    using p3 by (simp only:)
  show ?thesis
    using f1 i1 a' f2 i2 b' by (simp only: simp_thms)
qed

text \<open>
  The inverse quote can return less than \<open>i\<close>.  With a burn of 50 percent,
  \<^verbatim>\<open>tokenToXtzTokenInput\<close> does not invert \<^verbatim>\<open>tokenToXtzXtzOutput\<close>: 1000 tokens in give
  250 out, and 250 out ask for 285.71428571428571428571 tokens in.  Without fee or burn,
  a rounded forward quotient is enough: 1 in gives 0.33333333333333333333 out, which asks
  for 0.99999999999999999999 in.
\<close>

theorem round_trip_below_input:
  "tokenToXtzXtzOutput plain (Fin 1000) (Fin 1000) (Fin 1000) 0 50 = Some (Fin 250)
   \<and> tokenToXtzTokenInput plain (Fin 250) (Fin 1000) (Fin 1000) 0 0 50
       = Some (Fin (28571428571428571428571 / 100000000000000000000))
   \<and> (28571428571428571428571 / 100000000000000000000 :: rat) < 1000
   \<and> xtzToTokenTokenOutput plain (Fin 1) (Fin 2) (Fin 1) (Some 0) (Some 0)
       = Some (Fin (33333333333333333333 / 100000000000000000000))
   \<and> xtzToTokenXtzInput plain (Fin (33333333333333333333 / 100000000000000000000))
         (Fin 2) (Fin 1) 0 0 0
       = Some (Fin (99999999999999999999 / 100000000000000000000))
   \<and> (99999999999999999999 / 100000000000000000000 :: rat) < 1"
  by code_simp

section \<open>Price impact\<close>

text \<open>
  Both functions credit the XTZ pool first, and both return exactly 0 when the net
  proceeds they compute, \<^verbatim>\<open>tokensBought\<close> and \<^verbatim>\<open>xtzBoughtNetBurn\<close>, are not positive.
\<close>

lemma xtzToTokenPriceImpact_credited:
  "xtzToTokenPriceImpact this xtzIn xtzPool tokenPool burnPercent
     = xtzToTokenPriceImpact plain xtzIn (creditedPool this xtzPool) tokenPool burnPercent"
  by (simp add: xtzToTokenPriceImpact_def creditedPool_def)

lemma tokenToXtzPriceImpact_credited:
  "tokenToXtzPriceImpact this tokenIn xtzPool tokenPool burnPercent
     = tokenToXtzPriceImpact plain tokenIn (creditedPool this xtzPool) tokenPool burnPercent"
  by (simp add: tokenToXtzPriceImpact_def creditedPool_def)

lemma xtzToTokenPriceImpact_zero:
  assumes "gtZero a" "gtZero (creditedPool this p)" "gtZero t"
    and "leqZero (tokensBought a (creditedPool this p) t burnPercent)"
  shows "xtzToTokenPriceImpact this a p t burnPercent = Some (Fin 0)"
  using assms
  by (simp add: xtzToTokenPriceImpact_def tokensBought_def creditedPool_def Let_def
      BigNumber_of_int_def)

lemma tokenToXtzPriceImpact_zero:
  assumes "gtZero a" "gtZero (creditedPool this p)" "gtZero t"
    and "leqZero (xtzBoughtNetBurn a (creditedPool this p) t burnPercent)"
  shows "tokenToXtzPriceImpact this a p t burnPercent = Some (Fin 0)"
  using assms
  by (simp add: tokenToXtzPriceImpact_def xtzBoughtNetBurn_def creditedPool_def Let_def
      BigNumber_of_int_def)

text \<open>
  \<^verbatim>\<open>tokenToXtzPriceImpact\<close> takes the quotient \<^verbatim>\<open>xtzPool_.dividedBy(tokenPool_)\<close> as its
  mid price; on the pools of the repository's test data it returns 0.69268837838817523861
  for 100000000 tokens in.
\<close>

lemma tokenToXtzPriceImpact_test_data:
  "tokenToXtzPriceImpact plain (Fin 100000000) (Fin 3849181242) (Fin 44365061) 0
     = Some (Fin (69268837838817523861 / 100000000000000000000))"
  by code_simp

text \<open>
  C7.  The claim: for positive amounts and pools and a burn from 0 to 100, both price
  impact functions return a value in \<open>[0, 1)\<close>, and exactly 0 whenever the net proceeds
  they compute are not positive.  \<^verbatim>\<open>xtzToTokenPriceImpact\<close> does not: its mid price is
  the product \<^verbatim>\<open>tokenPool_.times(xtzPool_)\<close>, not a quotient of the pools, so that its
  exact quote \<open>tokenPool * xtzPool * xtzIn\<close> is beyond comparison with the tokens bought.
  For 1000000 in on pools of 29757960047 and 351953939, where the repository's tests
  expect 0.0010338398421562767, and on pools of 34204881343 and 39306268, where they
  expect 0.0017911036371857797, it returns exactly 1, with either value of the flag; for
  0.5 in on pools of 0.5 and 1 the quote is smaller than the tokens bought and it
  returns -1.
\<close>

theorem xtzToTokenPriceImpact_product_mid_price:
  "xtzToTokenPriceImpact plain (Fin 1000000) (Fin 29757960047) (Fin 351953939) 0
     = Some (Fin 1)
   \<and> xtzToTokenPriceImpact liquidityBaking (Fin 1000000) (Fin 29757960047) (Fin 351953939) 0
     = Some (Fin 1)
   \<and> xtzToTokenPriceImpact plain (Fin 1000000) (Fin 34204881343) (Fin 39306268) 0
     = Some (Fin 1)
   \<and> xtzToTokenPriceImpact plain (Fin (1 / 2)) (Fin (1 / 2)) (Fin 1) 0 = Some (Fin (- 1))"
  by code_simp

section \<open>Invalid input\<close>

text \<open>
  A public function returns \<^verbatim>\<open>null\<close>, here \<open>None\<close>, to report a failure; no
  operation of the library throws in its default configuration.  Below \<open>z\<close> is any
  value that is not strictly positive (zero, negative or \<^verbatim>\<open>NaN\<close>), \<open>q\<close> any XTZ pool
  whose credited value is not strictly positive, and \<open>w\<close> any argument for which the
  test \<^verbatim>\<open>tokenOut > 0\<close> of the language is false.
\<close>

lemma xtzToTokenTokenOutput_invalid:
  assumes "\<not> gtZero z" "\<not> gtZero (creditedPool this q)" "\<not> jsGreaterThanZero w"
  shows "xtzToTokenTokenOutput this z p t feeOpt burnOpt = None
     \<and> xtzToTokenTokenOutput this a q t feeOpt burnOpt = None
     \<and> xtzToTokenTokenOutput this a p z feeOpt burnOpt = None"
  using assms by (simp_all add: xtzToTokenTokenOutput_def creditedPool_def Let_def)

lemma xtzToTokenXtzInput_invalid:
  assumes "\<not> gtZero z" "\<not> gtZero (creditedPool this q)" "\<not> jsGreaterThanZero w"
  shows "xtzToTokenXtzInput this z p t d feePercent burnPercent = None
     \<and> xtzToTokenXtzInput this a q t d feePercent burnPercent = None
     \<and> xtzToTokenXtzInput this a p z d feePercent burnPercent = None"
  using assms by (simp_all add: xtzToTokenXtzInput_def creditedPool_def Let_def)

lemma xtzToTokenExchangeRate_invalid:
  assumes "\<not> gtZero z" "\<not> gtZero (creditedPool this q)" "\<not> jsGreaterThanZero w"
  shows "xtzToTokenExchangeRate this z p t feePercent burnPercent = None
     \<and> xtzToTokenExchangeRate this a z t feePercent burnPercent = None
     \<and> xtzToTokenExchangeRate this a q t feePercent burnPercent = None
     \<and> xtzToTokenExchangeRate this a p z feePercent burnPercent = None"
  using assms by (simp_all add: xtzToTokenExchangeRate_def xtzToTokenTokenOutput_def
      creditedPool_def Let_def)

lemma xtzToTokenExchangeRateForDisplay_invalid:
  assumes "\<not> gtZero z" "\<not> gtZero (creditedPool this q)" "\<not> jsGreaterThanZero w"
  shows "xtzToTokenExchangeRateForDisplay this pow10 z p t d feePercent burnPercent = None
     \<and> xtzToTokenExchangeRateForDisplay this pow10 a z t d feePercent burnPercent = None
     \<and> xtzToTokenExchangeRateForDisplay this pow10 a q t d feePercent burnPercent = None
     \<and> xtzToTokenExchangeRateForDisplay this pow10 a p z d feePercent burnPercent = None"
  using assms by (simp_all add: xtzToTokenExchangeRateForDisplay_def xtzToTokenTokenOutput_def
      creditedPool_def Let_def)

lemma xtzToTokenMarketRate_invalid:
  assumes "\<not> gtZero z" "\<not> gtZero (creditedPool this q)" "\<not> jsGreaterThanZero w"
  shows "xtzToTokenMarketRate this pow10 z t d = None
     \<and> xtzToTokenMarketRate this pow10 p z d = None"
  using assms by (simp_all add: xtzToTokenMarketRate_def creditedPool_def Let_def)

lemma xtzToTokenPriceImpact_invalid:
  assumes "\<not> gtZero z" "\<not> gtZero (creditedPool this q)" "\<not> jsGreaterThanZero w"
  shows "xtzToTokenPriceImpact this z p t burnPercent = None
     \<and> xtzToTokenPriceImpact this a q t burnPercent = None
     \<and> xtzToTokenPriceImpact this a p z burnPercent = None"
  using assms by (simp_all add: xtzToTokenPriceImpact_def creditedPool_def Let_def)

lemma xtzToTokenMinimumTokenOutput_invalid:
  assumes "\<not> gtZero z" "\<not> gtZero (creditedPool this q)" "\<not> jsGreaterThanZero w"
  shows "xtzToTokenMinimumTokenOutput this w slippage = None"
  using assms by (simp_all add: xtzToTokenMinimumTokenOutput_def creditedPool_def Let_def)

lemma totalLiquidityProviderFee_invalid:
  assumes "\<not> gtZero z" "\<not> gtZero (creditedPool this q)" "\<not> jsGreaterThanZero w"
  shows "totalLiquidityProviderFee this z = None"
  using assms by (simp_all add: totalLiquidityProviderFee_def creditedPool_def Let_def)

lemma liquidityProviderFee_invalid:
  assumes "\<not> gtZero z" "\<not> gtZero (creditedPool this q)" "\<not> jsGreaterThanZero w"
  shows "liquidityProviderFee this z t u = None
     \<and> liquidityProviderFee this a z u = None
     \<and> liquidityProviderFee this a t z = None"
  using assms by (simp_all add: liquidityProviderFee_def totalLiquidityProviderFee_def
      creditedPool_def Let_def)

lemma tokenToXtzXtzOutput_invalid:
  assumes "\<not> gtZero z" "\<not> gtZero (creditedPool this q)" "\<not> jsGreaterThanZero w"
  shows "tokenToXtzXtzOutput this z p t feePercent burnPercent = None
     \<and> tokenToXtzXtzOutput this a q t feePercent burnPercent = None
     \<and> tokenToXtzXtzOutput this a p z feePercent burnPercent = None"
  using assms by (simp_all add: tokenToXtzXtzOutput_def creditedPool_def Let_def)

lemma tokenToXtzTokenInput_invalid:
  assumes "\<not> gtZero z" "\<not> gtZero (creditedPool this q)" "\<not> jsGreaterThanZero w"
  shows "tokenToXtzTokenInput this z p t d feePercent burnPercent = None
     \<and> tokenToXtzTokenInput this a q t d feePercent burnPercent = None
     \<and> tokenToXtzTokenInput this a p z d feePercent burnPercent = None"
  using assms by (simp_all add: tokenToXtzTokenInput_def creditedPool_def Let_def)

lemma tokenToXtzExchangeRate_invalid:
  assumes "\<not> gtZero z" "\<not> gtZero (creditedPool this q)" "\<not> jsGreaterThanZero w"
  shows "tokenToXtzExchangeRate this z p t feePercent burnPercent = None
     \<and> tokenToXtzExchangeRate this a z t feePercent burnPercent = None
     \<and> tokenToXtzExchangeRate this a q t feePercent burnPercent = None
     \<and> tokenToXtzExchangeRate this a p z feePercent burnPercent = None"
  using assms by (simp_all add: tokenToXtzExchangeRate_def tokenToXtzXtzOutput_def
      creditedPool_def Let_def)

lemma tokenToXtzExchangeRateForDisplay_invalid:
  assumes "\<not> gtZero z" "\<not> gtZero (creditedPool this q)" "\<not> jsGreaterThanZero w"
  shows "tokenToXtzExchangeRateForDisplay this pow10 z p t decimals feePercent burnPercent = Inr None
     \<and> tokenToXtzExchangeRateForDisplay this pow10 a z t decimals feePercent burnPercent = Inr None
     \<and> tokenToXtzExchangeRateForDisplay this pow10 a q t decimals feePercent burnPercent = Inr None
     \<and> tokenToXtzExchangeRateForDisplay this pow10 a p z decimals feePercent burnPercent = Inr None"
  using assms by (simp_all add: tokenToXtzExchangeRateForDisplay_def tokenToXtzXtzOutput_def
      creditedPool_def Let_def)

lemma tokenToXtzMarketRate_invalid:
  assumes "\<not> gtZero z" "\<not> gtZero (creditedPool this q)" "\<not> jsGreaterThanZero w"
  shows "tokenToXtzMarketRate this pow10 z t d = None
     \<and> tokenToXtzMarketRate this pow10 p z d = None"
  using assms by (simp_all add: tokenToXtzMarketRate_def creditedPool_def Let_def)

lemma tokenToXtzPriceImpact_invalid:
  assumes "\<not> gtZero z" "\<not> gtZero (creditedPool this q)" "\<not> jsGreaterThanZero w"
  shows "tokenToXtzPriceImpact this z p t burnPercent = None
     \<and> tokenToXtzPriceImpact this a q t burnPercent = None
     \<and> tokenToXtzPriceImpact this a p z burnPercent = None"
  using assms by (simp_all add: tokenToXtzPriceImpact_def creditedPool_def Let_def)

lemma tokenToXtzMinimumXtzOutput_invalid:
  assumes "\<not> gtZero z" "\<not> gtZero (creditedPool this q)" "\<not> jsGreaterThanZero w"
  shows "tokenToXtzMinimumXtzOutput this z slippage = None"
  using assms by (simp_all add: tokenToXtzMinimumXtzOutput_def creditedPool_def Let_def)

lemma addLiquidityLiquidityCreated_invalid:
  assumes "\<not> gtZero z" "\<not> gtZero (creditedPool this q)" "\<not> jsGreaterThanZero w"
  shows "addLiquidityLiquidityCreated this z p l = None
     \<and> addLiquidityLiquidityCreated this a q l = None"
  using assms by (simp_all add: addLiquidityLiquidityCreated_def creditedPool_def Let_def)

lemma addLiquidityTokenIn_invalid:
  assumes "\<not> gtZero z" "\<not> gtZero (creditedPool this q)" "\<not> jsGreaterThanZero w"
  shows "addLiquidityTokenIn this z p t = None
     \<and> addLiquidityTokenIn this a q t = None
     \<and> addLiquidityTokenIn this a p z = None"
  using assms by (simp_all add: addLiquidityTokenIn_def creditedPool_def Let_def)

lemma addLiquidityXtzIn_invalid:
  assumes "\<not> gtZero z" "\<not> gtZero (creditedPool this q)" "\<not> jsGreaterThanZero w"
  shows "addLiquidityXtzIn this z p t = None
     \<and> addLiquidityXtzIn this a q t = None
     \<and> addLiquidityXtzIn this a p z = None"
  using assms by (simp_all add: addLiquidityXtzIn_def creditedPool_def Let_def)

lemma removeLiquidityTokenOut_invalid:
  assumes "\<not> gtZero z" "\<not> gtZero (creditedPool this q)" "\<not> jsGreaterThanZero w"
  shows "removeLiquidityTokenOut this z t u = None
     \<and> removeLiquidityTokenOut this a z u = None
     \<and> removeLiquidityTokenOut this a t z = None"
  using assms by (simp_all add: removeLiquidityTokenOut_def creditedPool_def Let_def)

lemma removeLiquidityXtzOut_invalid:
  assumes "\<not> gtZero z" "\<not> gtZero (creditedPool this q)" "\<not> jsGreaterThanZero w"
  shows "removeLiquidityXtzOut this z t p = None
     \<and> removeLiquidityXtzOut this a z p = None
     \<and> removeLiquidityXtzOut this a t q = None"
  using assms by (simp_all add: removeLiquidityXtzOut_def creditedPool_def Let_def)

text \<open>
  C9.  The claim: every public function returns the same \<^verbatim>\<open>null\<close>, and never raises,
  whenever an argument required to be strictly positive is zero or negative or a numeric
  argument does not coerce to a number.  As amended: every public function returns
  \<^verbatim>\<open>null\<close>, without raising, whenever an amount, a liquidity or a token pool argument
  that it requires to be strictly positive is zero, negative or not a number after
  coercion, and whenever the XTZ pool that it validates is: the credited pool
  \<open>xtzPool + 2,500,000\<close> when the flag is set (in the functions that read the flag), the
  pool argument itself otherwise.  \<^verbatim>\<open>xtzToTokenMinimumTokenOutput\<close>, which tests its
  argument as given, returns \<^verbatim>\<open>null\<close> whenever \<^verbatim>\<open>tokenOut > 0\<close> is false for the
  operator of the language.  \<^verbatim>\<open>tokenToXtzExchangeRateForDisplay\<close> returns \<^verbatim>\<open>null\<close> on
  these inputs before it reads its decimals, whatever they are.
\<close>

theorem invalid_input_returns_null:
  assumes "\<not> gtZero z" "\<not> gtZero (creditedPool this q)" "\<not> jsGreaterThanZero w"
  shows "xtzToTokenTokenOutput this z p t feeOpt burnOpt = None
       \<and> xtzToTokenTokenOutput this a q t feeOpt burnOpt = None
       \<and> xtzToTokenTokenOutput this a p z feeOpt burnOpt = None
       \<and> xtzToTokenXtzInput this z p t d feePercent burnPercent = None
       \<and> xtzToTokenXtzInput this a q t d feePercent burnPercent = None
       \<and> xtzToTokenXtzInput this a p z d feePercent burnPercent = None
       \<and> xtzToTokenExchangeRate this z p t feePercent burnPercent = None
       \<and> xtzToTokenExchangeRate this a z t feePercent burnPercent = None
       \<and> xtzToTokenExchangeRate this a q t feePercent burnPercent = None
       \<and> xtzToTokenExchangeRate this a p z feePercent burnPercent = None
       \<and> xtzToTokenExchangeRateForDisplay this pow10 z p t d feePercent burnPercent = None
       \<and> xtzToTokenExchangeRateForDisplay this pow10 a z t d feePercent burnPercent = None
       \<and> xtzToTokenExchangeRateForDisplay this pow10 a q t d feePercent burnPercent = None
       \<and> xtzToTokenExchangeRateForDisplay this pow10 a p z d feePercent burnPercent = None
       \<and> xtzToTokenMarketRate this pow10 z t d = None
       \<and> xtzToTokenMarketRate this pow10 p z d = None
       \<and> xtzToTokenPriceImpact this z p t burnPercent = None
       \<and> xtzToTokenPriceImpact this a q t burnPercent = None
       \<and> xtzToTokenPriceImpact this a p z burnPercent = None
       \<and> xtzToTokenMinimumTokenOutput this w slippage = None
       \<and> totalLiquidityProviderFee this z = None
       \<and> liquidityProviderFee this z t u = None
       \<and> liquidityProviderFee this a z u = None
       \<and> liquidityProviderFee this a t z = None
       \<and> tokenToXtzXtzOutput this z p t feePercent burnPercent = None
       \<and> tokenToXtzXtzOutput this a q t feePercent burnPercent = None
       \<and> tokenToXtzXtzOutput this a p z feePercent burnPercent = None
       \<and> tokenToXtzTokenInput this z p t d feePercent burnPercent = None
       \<and> tokenToXtzTokenInput this a q t d feePercent burnPercent = None
       \<and> tokenToXtzTokenInput this a p z d feePercent burnPercent = None
       \<and> tokenToXtzExchangeRate this z p t feePercent burnPercent = None
       \<and> tokenToXtzExchangeRate this a z t feePercent burnPercent = None
       \<and> tokenToXtzExchangeRate this a q t feePercent burnPercent = None
       \<and> tokenToXtzExchangeRate this a p z feePercent burnPercent = None
       \<and> tokenToXtzExchangeRateForDisplay this pow10 z p t decimals feePercent burnPercent = Inr None
       \<and> tokenToXtzExchangeRateForDisplay this pow10 a z t decimals feePercent burnPercent = Inr None
       \<and> tokenToXtzExchangeRateForDisplay this pow10 a q t decimals feePercent burnPercent = Inr None
       \<and> tokenToXtzExchangeRateForDisplay this pow10 a p z decimals feePercent burnPercent = Inr None
       \<and> tokenToXtzMarketRate this pow10 z t d = None
       \<and> tokenToXtzMarketRate this pow10 p z d = None
       \<and> tokenToXtzPriceImpact this z p t burnPercent = None
       \<and> tokenToXtzPriceImpact this a q t burnPercent = None
       \<and> tokenToXtzPriceImpact this a p z burnPercent = None
       \<and> tokenToXtzMinimumXtzOutput this z slippage = None
       \<and> addLiquidityLiquidityCreated this z p l = None
       \<and> addLiquidityLiquidityCreated this a q l = None
       \<and> addLiquidityTokenIn this z p t = None
       \<and> addLiquidityTokenIn this a q t = None
       \<and> addLiquidityTokenIn this a p z = None
       \<and> addLiquidityXtzIn this z p t = None
       \<and> addLiquidityXtzIn this a q t = None
       \<and> addLiquidityXtzIn this a p z = None
       \<and> removeLiquidityTokenOut this z t u = None
       \<and> removeLiquidityTokenOut this a z u = None
       \<and> removeLiquidityTokenOut this a t z = None
       \<and> removeLiquidityXtzOut this z t p = None
       \<and> removeLiquidityXtzOut this a z p = None
       \<and> removeLiquidityXtzOut this a t q = None"
  using xtzToTokenTokenOutput_invalid[OF assms] xtzToTokenXtzInput_invalid[OF assms]
    xtzToTokenExchangeRate_invalid[OF assms] xtzToTokenExchangeRateForDisplay_invalid[OF assms]
    xtzToTokenMarketRate_invalid[OF assms] xtzToTokenPriceImpact_invalid[OF assms]
    xtzToTokenMinimumTokenOutput_invalid[OF assms] totalLiquidityProviderFee_invalid[OF assms]
    liquidityProviderFee_invalid[OF assms] tokenToXtzXtzOutput_invalid[OF assms]
    tokenToXtzTokenInput_invalid[OF assms] tokenToXtzExchangeRate_invalid[OF assms]
    tokenToXtzExchangeRateForDisplay_invalid[OF assms] tokenToXtzMarketRate_invalid[OF assms]
    tokenToXtzPriceImpact_invalid[OF assms] tokenToXtzMinimumXtzOutput_invalid[OF assms]
    addLiquidityLiquidityCreated_invalid[OF assms] addLiquidityTokenIn_invalid[OF assms]
    addLiquidityXtzIn_invalid[OF assms] removeLiquidityTokenOut_invalid[OF assms]
    removeLiquidityXtzOut_invalid[OF assms]
  by (simp only: simp_thms)

theorem invalid_input_returns_null_witness:
  "xtzToTokenTokenOutput liquidityBaking (Fin 0) (Fin 1) (Fin 1) None None = None
   \<and> xtzToTokenTokenOutput liquidityBaking (Fin 1) (Fin (- 2500000)) (Fin 1) None None = None
   \<and> xtzToTokenMinimumTokenOutput liquidityBaking
         \<lparr>jsGreaterThanZero = False, asBigNumber = Fin 0\<rparr> 0 = None
   \<and> tokenToXtzMinimumXtzOutput liquidityBaking (Fin 0) 0 = None
   \<and> removeLiquidityXtzOut plain (Fin 1) NaN (Fin 1) = None
   \<and> removeLiquidityXtzOut plain (Fin 1) (Fin 1) (Fin (- 1)) = None
   \<and> tokenToXtzExchangeRateForDisplay plain Math_pow10 NaN (Fin 1) (Fin 1) PlainDecimals 0 0
       = Inr None"
proof -
  have h: "\<not> gtZero (Fin 0)" "\<not> gtZero (creditedPool liquidityBaking (Fin (- 2500000)))"
    "\<not> jsGreaterThanZero \<lparr>jsGreaterThanZero = False, asBigNumber = Fin 0\<rparr>"
    by simp_all
  have g: "\<not> gtZero NaN" "\<not> gtZero (creditedPool plain (Fin (- 1)))"
    "\<not> jsGreaterThanZero \<lparr>jsGreaterThanZero = False, asBigNumber = Fin 0\<rparr>"
    by simp_all
  show ?thesis
    using invalid_input_returns_null[OF h] invalid_input_returns_null[OF g] by simp
qed

text \<open>
  With the flag set the pool is credited before it is validated, so a pool argument of
  zero is accepted.  \<^verbatim>\<open>xtzToTokenMinimumTokenOutput\<close> accepts the text \<^verbatim>\<open>"0xaB"\<close>,
  positive for the operator and \<^verbatim>\<open>NaN\<close> for \<open>BigNumber\<close>, and returns \<^verbatim>\<open>NaN\<close>.
  With valid amounts, \<^verbatim>\<open>tokenToXtzExchangeRateForDisplay\<close> raises on decimals that are
  not a \<open>BigNumber\<close>.
\<close>

theorem zero_pool_accepted_when_credited:
  "xtzToTokenTokenOutput liquidityBaking (Fin 1) (Fin 0) (Fin 1) None None
     = Some (Fin (19999992000003 / 50000000000000000000))
   \<and> xtzToTokenMinimumTokenOutput plain \<lparr>jsGreaterThanZero = True, asBigNumber = NaN\<rparr> 0
     = Some NaN
   \<and> tokenToXtzExchangeRateForDisplay plain Math_pow10 (Fin 1) (Fin 1) (Fin 1) PlainDecimals 0 0
     = Inl TypeError"
  by code_simp

end
